theory Spec2Isabelle
  imports Complex_Main
begin

section \<open>India's energy transition model: the program as HOL definitions\<close>

text \<open>
  The program \<^verbatim>\<open>model_gurobi.py\<close> is one script: it reads three tables, builds a linear
  program (variables, objective, constraints), hands it to an external solver and prints a
  report from the solved values. Python floats are modelled as exact reals: the
  development is about the formulas the script builds, not about rounding. The one value
  that is not a number and is modelled is the NaN that an empty capital cost cell is read
  as. The other numeric cells (current production, emission factor, plant counts, target
  value) are taken to hold numbers: nothing is said here of a table where one of them is
  empty.
\<close>

subsection \<open>Floats that may be NaN\<close>

datatype pyfloat = Num real | NaN

text \<open>Arithmetic with a NaN gives NaN; a comparison with a NaN is false.\<close>

definition fmap :: "(real \<Rightarrow> real) \<Rightarrow> pyfloat \<Rightarrow> pyfloat" where
  "fmap f a = (case a of Num v \<Rightarrow> Num (f v) | NaN \<Rightarrow> NaN)"

definition fadd :: "pyfloat \<Rightarrow> pyfloat \<Rightarrow> pyfloat" where
  "fadd a b = (case a of Num v \<Rightarrow> fmap (\<lambda>w. v + w) b | NaN \<Rightarrow> NaN)"

definition fsum :: "pyfloat list \<Rightarrow> pyfloat" where
  "fsum as = foldl fadd (Num 0) as"

definition exceeds :: "pyfloat \<Rightarrow> real \<Rightarrow> bool" where
  "exceeds a t = (case a of Num v \<Rightarrow> v > t | NaN \<Rightarrow> False)"

subsection \<open>The three input tables\<close>

record emissions_row =
  Source :: string
  Capital_Cost :: pyfloat
  Current_Production :: real
  Emission_Factor :: real

record plants_row =
  Plant_Source :: string
  Max_Plants :: real
  Min_Plants :: real

record goals_row =
  Goal :: string
  Target_Value :: real

record tables =
  emissions_data :: "emissions_row list"
  potential_plants_data :: "plants_row list"
  goals_data :: "goals_row list"

subsection \<open>Python dictionaries and their errors\<close>

text \<open>
  \<^verbatim>\<open>KeyError\<close> carries the missing key, or the message of the modelling library;
  \<^verbatim>\<open>GurobiError\<close> stands for the error with which the library refuses a NaN.
\<close>

datatype error = KeyError string | ZeroDivisionError | GurobiError

text \<open>\<^verbatim>\<open>dict(pairs)\<close>: a later pair overrides an earlier one with the same key.\<close>

definition dict_of :: "('k \<times> 'v) list \<Rightarrow> ('k \<rightharpoonup> 'v)" where
  "dict_of kvs = map_of (rev kvs)"

text \<open>\<^verbatim>\<open>d[k]\<close> raises \<^verbatim>\<open>KeyError\<close> on a missing key.\<close>

definition lookup :: "(string \<rightharpoonup> 'v) \<Rightarrow> string \<Rightarrow> error + 'v" where
  "lookup d k = (case d k of None \<Rightarrow> Inl (KeyError k) | Some v \<Rightarrow> Inr v)"

subsection \<open>Parameters (lines 32--64)\<close>

definition sources :: "tables \<Rightarrow> string list" where
  "sources inp = map Source (emissions_data inp)"

definition years :: "int list" where
  "years = [2024..2030]"

definition capital_cost :: "tables \<Rightarrow> (string \<rightharpoonup> pyfloat)" where
  "capital_cost inp =
     dict_of (zip (map Source (emissions_data inp)) (map Capital_Cost (emissions_data inp)))"

definition current_capacity :: "tables \<Rightarrow> (string \<rightharpoonup> real)" where
  "current_capacity inp =
     dict_of (zip (map Source (emissions_data inp)) (map Current_Production (emissions_data inp)))"

definition emission_factors :: "tables \<Rightarrow> (string \<rightharpoonup> real)" where
  "emission_factors inp =
     dict_of (zip (map Source (emissions_data inp)) (map Emission_Factor (emissions_data inp)))"

definition capacity_factors :: "string \<rightharpoonup> real" where
  "capacity_factors = dict_of
     [(''Solar'', 0.2), (''Wind'', 0.3), (''Hydropower'', 0.4), (''Biomass'', 0.7),
      (''Nuclear'', 0.9), (''Coal'', 0.8), (''Natural Gas'', 0.5)]"

definition goal_mappings :: "string \<rightharpoonup> string" where
  "goal_mappings = dict_of
     [(''Coal Capacity (GW)'', ''Coal''),
      (''Natural Gas Capacity (GW)'', ''Natural Gas''),
      (''Nuclear Capacity (GW)'', ''Nuclear''),
      (''Solar Capacity (GW)'', ''Solar''),
      (''Wind Capacity (GW)'', ''Wind''),
      (''Hydropower Capacity (GW)'', ''Hydropower''),
      (''Biomass Capacity (GW)'', ''Biomass'')]"

text \<open>
  The dictionary comprehension of lines 55--59. The key \<^verbatim>\<open>goal_mappings[row["Goal"]]\<close> is
  only evaluated for rows that passed the test \<^verbatim>\<open>row["Goal"] in goal_mappings\<close>, so the
  lookup cannot raise.
\<close>

definition target_capacity :: "tables \<Rightarrow> (string \<rightharpoonup> real)" where
  "target_capacity inp = dict_of
     [(the (goal_mappings (Goal row)), Target_Value row * 1000).
        row \<leftarrow> goals_data inp, goal_mappings (Goal row) \<noteq> None]"

definition max_plants :: "tables \<Rightarrow> (string \<rightharpoonup> real)" where
  "max_plants inp =
     dict_of (zip (map Plant_Source (potential_plants_data inp))
                  (map Max_Plants (potential_plants_data inp)))"

definition min_plants :: "tables \<Rightarrow> (string \<rightharpoonup> real)" where
  "min_plants inp =
     dict_of (zip (map Plant_Source (potential_plants_data inp))
                  (map Min_Plants (potential_plants_data inp)))"

definition filtered_sources :: "tables \<Rightarrow> string list" where
  "filtered_sources inp = [source \<leftarrow> sources inp. target_capacity inp source \<noteq> None]"

subsection \<open>Raising expressions\<close>

text \<open>An expression either raises (\<open>Inl\<close>) or has a value (\<open>Inr\<close>).\<close>

definition err_bind :: "error + 'a \<Rightarrow> ('a \<Rightarrow> error + 'b) \<Rightarrow> error + 'b" where
  "err_bind r f = (case r of Inl e \<Rightarrow> Inl e | Inr v \<Rightarrow> f v)"

text \<open>A generator is consumed from left to right and stops at the first element that raises.\<close>

fun collect :: "(error + 'a) list \<Rightarrow> error + 'a list" where
  "collect [] = Inr []"
| "collect (r # rs) =
     (case r of
        Inl e \<Rightarrow> Inl e
      | Inr v \<Rightarrow> (case collect rs of Inl e \<Rightarrow> Inl e | Inr vs \<Rightarrow> Inr (v # vs)))"

subsection \<open>The linear program as data\<close>

datatype var =
    Investment string int
  | Slack_Target string
  | Slack_Min_Budget int
  | Slack_Max_Budget int
  | Slack_Renewable_Capacity
  | Slack_Renewable_Production
  | Slack_Emissions

text \<open>A linear expression of the modelling library: weighted variables and a constant.\<close>

datatype linexpr = LinExpr (lin_terms: "(real \<times> var) list") (lin_const: real)

definition var_expr :: "var \<Rightarrow> linexpr" where
  "var_expr v = LinExpr [(1, v)] 0"

definition const_expr :: "real \<Rightarrow> linexpr" where
  "const_expr c = LinExpr [] c"

definition add_expr :: "linexpr \<Rightarrow> linexpr \<Rightarrow> linexpr" where
  "add_expr a b = LinExpr (lin_terms a @ lin_terms b) (lin_const a + lin_const b)"

definition scale_expr :: "real \<Rightarrow> linexpr \<Rightarrow> linexpr" where
  "scale_expr k a = LinExpr (map (\<lambda>(c, v). (k * c, v)) (lin_terms a)) (k * lin_const a)"

text \<open>
  Dividing an expression by a constant multiplies it by the reciprocal; the reciprocal
  of zero raises \<^verbatim>\<open>ZeroDivisionError\<close>. A NaN divisor gives an expression that the library
  refuses in the statement that holds the division; the construction never comes to that,
  an empty cost cell having stopped it at line 95.
\<close>

definition div_expr :: "linexpr \<Rightarrow> pyfloat \<Rightarrow> error + linexpr" where
  "div_expr a k =
     (case k of
        NaN \<Rightarrow> Inl GurobiError
      | Num d \<Rightarrow> if d = 0 then Inl ZeroDivisionError else Inr (scale_expr (1 / d) a))"

definition quicksum :: "linexpr list \<Rightarrow> linexpr" where
  "quicksum es = LinExpr (concat (map lin_terms es)) (sum_list (map lin_const es))"

definition eval_expr :: "(var \<Rightarrow> real) \<Rightarrow> linexpr \<Rightarrow> real" where
  "eval_expr x a = (\<Sum>(c, v) \<leftarrow> lin_terms a. c * x v) + lin_const a"

datatype sense = GE | LE

text \<open>
  The name of a constraint: the f-strings \<^verbatim>\<open>Target_{source}\<close>, \<^verbatim>\<open>Min_Budget_{year}\<close>,
  \<^verbatim>\<open>Max_Budget_{year}\<close> and the three fixed names.
\<close>

datatype cname =
    Target string
  | Min_Budget int
  | Max_Budget int
  | Renewable_Capacity
  | Renewable_Production
  | Emissions

record constr =
  c_name :: cname
  c_lhs :: linexpr
  c_sense :: sense
  c_rhs :: linexpr

definition holds :: "(var \<Rightarrow> real) \<Rightarrow> constr \<Rightarrow> bool" where
  "holds x c =
     (case c_sense c of
        GE \<Rightarrow> eval_expr x (c_lhs c) \<ge> eval_expr x (c_rhs c)
      | LE \<Rightarrow> eval_expr x (c_lhs c) \<le> eval_expr x (c_rhs c))"

record lp_model =
  m_vars :: "var list"
  m_objective :: linexpr
  m_constrs :: "constr list"

subsection \<open>Variables and objective (lines 67--88)\<close>

text \<open>
  \<^verbatim>\<open>addVars\<close> returns a dictionary of variables keyed by index tuples, every variable with
  lower bound 0. It raises \<^verbatim>\<open>KeyError\<close> on a key that occurs twice and then creates no
  variable: line 68 raises when a filtered source is listed twice.
\<close>

definition duplicate_keys :: error where
  "duplicate_keys = KeyError ''Duplicate keys in Model.addVars()''"

definition investment_keys :: "tables \<Rightarrow> (string \<times> int) list" where
  "investment_keys inp = List.product (filtered_sources inp) years"

definition investment :: "tables \<Rightarrow> string \<Rightarrow> int \<Rightarrow> error + var" where
  "investment inp source year =
     (if (source, year) \<in> set (investment_keys inp) then Inr (Investment source year)
      else Inl (KeyError source))"

text \<open>\<^verbatim>\<open>investment.sum(source, '*')\<close> and \<^verbatim>\<open>investment.sum('*', year)\<close>: the sum of the
  variables whose key matches the pattern.\<close>

definition investment_sum :: "tables \<Rightarrow> (string \<times> int \<Rightarrow> bool) \<Rightarrow> linexpr" where
  "investment_sum inp pat =
     quicksum [var_expr (Investment s y). (s, y) \<leftarrow> investment_keys inp, pat (s, y)]"

definition model_vars :: "tables \<Rightarrow> var list" where
  "model_vars inp =
     [Investment s y. (s, y) \<leftarrow> investment_keys inp]
     @ [Slack_Target s. s \<leftarrow> filtered_sources inp]
     @ [Slack_Min_Budget y. y \<leftarrow> years]
     @ [Slack_Max_Budget y. y \<leftarrow> years]
     @ [Slack_Renewable_Capacity, Slack_Renewable_Production, Slack_Emissions]"

definition penalty_factor :: real where
  "penalty_factor = 1.1"

text \<open>The keys of lines 81--84 are the lists the variables were created from, so these
  lookups cannot raise.\<close>

definition objective :: "tables \<Rightarrow> linexpr" where
  "objective inp =
     add_expr
       (quicksum [var_expr (Investment s y). s \<leftarrow> filtered_sources inp, y \<leftarrow> years])
       (scale_expr penalty_factor
          (add_expr
             (add_expr
                (add_expr
                   (add_expr
                      (quicksum [var_expr (Slack_Target s). s \<leftarrow> filtered_sources inp])
                      (quicksum [add_expr (var_expr (Slack_Min_Budget y))
                                          (var_expr (Slack_Max_Budget y)). y \<leftarrow> years]))
                   (var_expr Slack_Renewable_Capacity))
                (var_expr Slack_Renewable_Production))
             (var_expr Slack_Emissions)))"

subsection \<open>Target and budget constraints (lines 91--111)\<close>

definition total_target_cost :: "tables \<Rightarrow> string \<Rightarrow> error + pyfloat" where
  "total_target_cost inp source =
     err_bind (lookup (target_capacity inp) source) (\<lambda>t.
     err_bind (lookup (current_capacity inp) source) (\<lambda>c.
     err_bind (lookup (capital_cost inp) source) (\<lambda>k.
       Inr (fmap (\<lambda>d. (t - c) * d) k))))"

definition target_constr :: "tables \<Rightarrow> string \<Rightarrow> real \<Rightarrow> constr" where
  "target_constr inp source cost =
     \<lparr>c_name = Target source,
      c_lhs = add_expr (investment_sum inp (\<lambda>(s, y). s = source)) (var_expr (Slack_Target source)),
      c_sense = GE,
      c_rhs = const_expr cost\<rparr>"

text \<open>The loop of lines 92--98, with the constraints added so far; it stops where an
  expression raises, and where the library refuses the NaN right-hand side of line 95.\<close>

fun target_loop :: "tables \<Rightarrow> string list \<Rightarrow> constr list \<Rightarrow> constr list \<times> error option" where
  "target_loop inp [] cs = (cs, None)"
| "target_loop inp (source # rest) cs =
     (case total_target_cost inp source of
        Inl e \<Rightarrow> (cs, Some e)
      | Inr NaN \<Rightarrow> (cs, Some GurobiError)
      | Inr (Num cost) \<Rightarrow> target_loop inp rest (cs @ [target_constr inp source cost]))"

definition total_investment_budget :: real where
  "total_investment_budget = 44 * (10 * 10 ^ 11)"

definition average_annual_investment :: real where
  "average_annual_investment = total_investment_budget / real (length years)"

definition min_annual_budget :: real where
  "min_annual_budget = 0.8 * average_annual_investment"

definition max_annual_budget :: real where
  "max_annual_budget = 1.2 * average_annual_investment"

definition min_budget_constr :: "tables \<Rightarrow> int \<Rightarrow> constr" where
  "min_budget_constr inp year =
     \<lparr>c_name = Min_Budget year,
      c_lhs = add_expr (investment_sum inp (\<lambda>(s, y). y = year)) (var_expr (Slack_Min_Budget year)),
      c_sense = GE,
      c_rhs = const_expr min_annual_budget\<rparr>"

definition max_budget_constr :: "tables \<Rightarrow> int \<Rightarrow> constr" where
  "max_budget_constr inp year =
     \<lparr>c_name = Max_Budget year,
      c_lhs = investment_sum inp (\<lambda>(s, y). y = year),
      c_sense = LE,
      c_rhs = add_expr (const_expr max_annual_budget) (var_expr (Slack_Max_Budget year))\<rparr>"

definition budget_constrs :: "tables \<Rightarrow> constr list" where
  "budget_constrs inp =
     concat (map (\<lambda>year. [min_budget_constr inp year, max_budget_constr inp year]) years)"

subsection \<open>Renewable targets and constraints (lines 113--140)\<close>

definition renewable_sources :: "string list" where
  "renewable_sources = [''Solar'', ''Wind'', ''Hydropower'', ''Biomass'']"

definition total_renewable_capacity_target :: "tables \<Rightarrow> error + real" where
  "total_renewable_capacity_target inp =
     err_bind (collect [lookup (target_capacity inp) source. source \<leftarrow> renewable_sources])
       (\<lambda>ts. Inr (sum_list ts))"

definition production_gap :: "tables \<Rightarrow> string \<Rightarrow> error + real" where
  "production_gap inp source =
     err_bind (lookup (target_capacity inp) source) (\<lambda>t.
     err_bind (lookup (current_capacity inp) source) (\<lambda>c.
     err_bind (lookup capacity_factors source) (\<lambda>f.
       Inr ((t - c) * f * 8760 / 10 ^ 6))))"

definition total_renewable_production_target :: "tables \<Rightarrow> error + real" where
  "total_renewable_production_target inp =
     err_bind (collect [production_gap inp source. source \<leftarrow> renewable_sources])
       (\<lambda>ps. Inr (sum_list ps))"

text \<open>\<^verbatim>\<open>investment[source, year] / capital_cost[source]\<close>: two lookups, then the division.\<close>

definition invest_per_cost :: "tables \<Rightarrow> string \<Rightarrow> int \<Rightarrow> error + linexpr" where
  "invest_per_cost inp source year =
     err_bind (investment inp source year) (\<lambda>v.
     err_bind (lookup (capital_cost inp) source) (\<lambda>k.
       div_expr (var_expr v) k))"

definition renewable_capacity_lhs :: "tables \<Rightarrow> error + linexpr" where
  "renewable_capacity_lhs inp =
     err_bind
       (collect [invest_per_cost inp source year. source \<leftarrow> renewable_sources, year \<leftarrow> years])
       (\<lambda>es. Inr (add_expr (quicksum es) (var_expr Slack_Renewable_Capacity)))"

definition production_term :: "tables \<Rightarrow> string \<Rightarrow> int \<Rightarrow> error + linexpr" where
  "production_term inp source year =
     err_bind (invest_per_cost inp source year) (\<lambda>e.
     err_bind (lookup capacity_factors source) (\<lambda>f.
       Inr (scale_expr 8760 (scale_expr f e))))"

definition renewable_production_lhs :: "tables \<Rightarrow> error + linexpr" where
  "renewable_production_lhs inp =
     err_bind
       (collect [production_term inp source year. source \<leftarrow> renewable_sources, year \<leftarrow> years])
       (\<lambda>es. Inr (add_expr (quicksum es) (var_expr Slack_Renewable_Production)))"

subsection \<open>Emission target and constraint (lines 142--175)\<close>

definition emission_gap :: "tables \<Rightarrow> string \<Rightarrow> error + real" where
  "emission_gap inp source =
     err_bind (lookup (emission_factors inp) source) (\<lambda>ef.
     err_bind (lookup (target_capacity inp) source) (\<lambda>t.
     err_bind (lookup (current_capacity inp) source) (\<lambda>c.
     err_bind (lookup capacity_factors source) (\<lambda>f.
       Inr (ef * (t - c) * f * 8760 / 10 ^ 3)))))"

definition total_emission_target :: "tables \<Rightarrow> real \<Rightarrow> error + real" where
  "total_emission_target inp production_target =
     err_bind (collect [emission_gap inp source. source \<leftarrow> filtered_sources inp])
       (\<lambda>gs. Inr (0.43 * production_target * 10 ^ 6 + sum_list gs))"

definition emission_term :: "tables \<Rightarrow> string \<Rightarrow> int \<Rightarrow> error + linexpr" where
  "emission_term inp source year =
     err_bind (invest_per_cost inp source year) (\<lambda>e.
     err_bind (lookup (emission_factors inp) source) (\<lambda>ef.
       Inr (scale_expr ef e)))"

definition emissions_lhs :: "tables \<Rightarrow> error + linexpr" where
  "emissions_lhs inp =
     err_bind
       (collect [emission_term inp source year. source \<leftarrow> filtered_sources inp, year \<leftarrow> years])
       (\<lambda>es. Inr (quicksum es))"

subsection \<open>Building the model (lines 67--175)\<close>

text \<open>
  The outcome of the construction: the model handed to the solver together with the three
  targets the report reads again, or the error raised and the constraints that had been
  added to the model when it was raised. The variables of lines 68--76 come first: the
  keys of line 68 must be distinct. The logging loop of lines 157--165 evaluates the
  expressions of lines 143--150 once more and cannot raise where they did not.
\<close>

record built =
  b_model :: lp_model
  b_capacity_target :: real
  b_production_target :: real
  b_emission_target :: real

datatype outcome = Built built | Failed error "constr list"

definition build :: "tables \<Rightarrow> outcome" where
  "build inp =
     (if \<not> distinct (filtered_sources inp) then Failed duplicate_keys [] else
     (case target_loop inp (filtered_sources inp) [] of
        (cs1, Some e) \<Rightarrow> Failed e cs1
      | (cs1, None) \<Rightarrow>
     (let cs2 = cs1 @ budget_constrs inp in
     (case total_renewable_capacity_target inp of Inl e \<Rightarrow> Failed e cs2 | Inr rct \<Rightarrow>
     (case total_renewable_production_target inp of Inl e \<Rightarrow> Failed e cs2 | Inr rpt \<Rightarrow>
     (case renewable_capacity_lhs inp of Inl e \<Rightarrow> Failed e cs2 | Inr lhs_rc \<Rightarrow>
     (let cs3 = cs2 @ [\<lparr>c_name = Renewable_Capacity, c_lhs = lhs_rc, c_sense = GE,
                        c_rhs = const_expr rct\<rparr>] in
     (case renewable_production_lhs inp of Inl e \<Rightarrow> Failed e cs3 | Inr lhs_rp \<Rightarrow>
     (let cs4 = cs3 @ [\<lparr>c_name = Renewable_Production, c_lhs = lhs_rp, c_sense = GE,
                        c_rhs = const_expr (rpt * 10 ^ 6)\<rparr>] in
     (case total_emission_target inp rpt of Inl e \<Rightarrow> Failed e cs4 | Inr tet \<Rightarrow>
     (case emissions_lhs inp of Inl e \<Rightarrow> Failed e cs4 | Inr lhs_em \<Rightarrow>
     (let cs5 = cs4 @ [\<lparr>c_name = Emissions, c_lhs = lhs_em, c_sense = LE,
                        c_rhs = add_expr (const_expr tet) (var_expr Slack_Emissions)\<rparr>] in
     Built \<lparr>b_model = \<lparr>m_vars = model_vars inp, m_objective = objective inp,
                        m_constrs = cs5\<rparr>,
            b_capacity_target = rct, b_production_target = rpt,
            b_emission_target = tet\<rparr>))))))))))))"

subsection \<open>What the solver is asked for\<close>

text \<open>
  The solver is outside the program. Of its answer only this is used: values for the
  variables that respect the lower bounds and the constraints, with the least objective.
\<close>

definition feasible :: "lp_model \<Rightarrow> (var \<Rightarrow> real) \<Rightarrow> bool" where
  "feasible m x \<longleftrightarrow> (\<forall>v \<in> set (m_vars m). 0 \<le> x v) \<and> (\<forall>c \<in> set (m_constrs m). holds x c)"

definition optimal :: "lp_model \<Rightarrow> (var \<Rightarrow> real) \<Rightarrow> bool" where
  "optimal m x \<longleftrightarrow>
     feasible m x \<and>
     (\<forall>x'. feasible m x' \<longrightarrow> eval_expr x (m_objective m) \<le> eval_expr x' (m_objective m))"

subsection \<open>Result analysis (lines 184--257)\<close>

text \<open>
  \<^verbatim>\<open>format_inr\<close> picks the unit; the two decimals it prints are not modelled, the value
  carries the number that is formatted.
\<close>

datatype inr = Lakh_Crore real | Crore real

definition format_inr :: "real \<Rightarrow> inr" where
  "format_inr amount = (if amount \<ge> 10 ^ 5 then Lakh_Crore (amount / 10 ^ 5) else Crore amount)"

text \<open>The printed lines that carry a number, each with the numbers it shows.\<close>

datatype line =
    Total_Investment inr
  | Source_Investment string inr
  | Year_Investment int inr
  | Target_Shortfall string inr
  | Year_Total int inr
  | Min_Budget_Shortfall inr
  | Max_Budget_Exceeded inr
  | Capacity_Achieved pyfloat real
  | Capacity_Shortfall real
  | Production_Achieved pyfloat real
  | Production_Shortfall real
  | Total_Emissions pyfloat real
  | Emissions_Exceed pyfloat
  | Emissions_Below pyfloat

text \<open>The body of the loop of lines 194--203 for one source.\<close>

definition source_lines :: "(var \<Rightarrow> real) \<Rightarrow> string \<Rightarrow> line list" where
  "source_lines x source =
     (let source_investment = (\<Sum>y \<leftarrow> years. x (Investment source y)) in
      (if source_investment > 0 then
         Source_Investment source (format_inr (source_investment / 10 ^ 7))
         # [Year_Investment year (format_inr (x (Investment source year) / 10 ^ 7)).
              year \<leftarrow> years, x (Investment source year) > 0.5]
       else [])
      @ (if x (Slack_Target source) > 0.5
         then [Target_Shortfall source (format_inr (x (Slack_Target source) / 10 ^ 7))]
         else []))"

text \<open>The body of the loop of lines 206--212 for one year.\<close>

definition year_lines :: "tables \<Rightarrow> (var \<Rightarrow> real) \<Rightarrow> int \<Rightarrow> line list" where
  "year_lines inp x year =
     (let total_year_investment = (\<Sum>s \<leftarrow> filtered_sources inp. x (Investment s year)) in
      [Year_Total year (format_inr (total_year_investment / 10 ^ 7))]
      @ (if x (Slack_Min_Budget year) > 0.5
         then [Min_Budget_Shortfall (format_inr (x (Slack_Min_Budget year) / 10 ^ 7))]
         else [])
      @ (if x (Slack_Max_Budget year) > 0.5
         then [Max_Budget_Exceeded (format_inr (x (Slack_Max_Budget year) / 10 ^ 7))]
         else []))"

text \<open>A float divided by a float: a zero divisor raises, a NaN divisor gives NaN.\<close>

definition fdiv :: "real \<Rightarrow> pyfloat \<Rightarrow> error + pyfloat" where
  "fdiv a k =
     (case k of
        NaN \<Rightarrow> Inr NaN
      | Num d \<Rightarrow> if d = 0 then Inl ZeroDivisionError else Inr (Num (a / d)))"

text \<open>\<^verbatim>\<open>investment[s, y].X / capital_cost[s]\<close> on floats: two lookups and the division.\<close>

definition value_per_cost :: "tables \<Rightarrow> (var \<Rightarrow> real) \<Rightarrow> string \<Rightarrow> int \<Rightarrow> error + pyfloat" where
  "value_per_cost inp x source year =
     err_bind (investment inp source year) (\<lambda>v.
     err_bind (lookup (capital_cost inp) source) (\<lambda>k.
       fdiv (x v) k))"

definition renewable_capacity_achieved :: "tables \<Rightarrow> (var \<Rightarrow> real) \<Rightarrow> error + pyfloat" where
  "renewable_capacity_achieved inp x =
     err_bind (collect [value_per_cost inp x s y. s \<leftarrow> renewable_sources, y \<leftarrow> years])
       (\<lambda>vs. Inr (fsum vs))"

definition renewable_production_achieved :: "tables \<Rightarrow> (var \<Rightarrow> real) \<Rightarrow> error + pyfloat" where
  "renewable_production_achieved inp x =
     err_bind
       (collect [err_bind (value_per_cost inp x s y) (\<lambda>q.
                 err_bind (lookup capacity_factors s) (\<lambda>f.
                   Inr (fmap (\<lambda>v. v * f * 8760 / 10 ^ 6) q))).
                 s \<leftarrow> renewable_sources, y \<leftarrow> years])
       (\<lambda>vs. Inr (fsum vs))"

definition emissions_produced :: "tables \<Rightarrow> (var \<Rightarrow> real) \<Rightarrow> error + pyfloat" where
  "emissions_produced inp x =
     err_bind
       (collect [err_bind (value_per_cost inp x source year) (\<lambda>q.
                 err_bind (lookup (emission_factors inp) source) (\<lambda>ef.
                   Inr (fmap (\<lambda>v. v * ef * 8760) q))).
                 source \<leftarrow> filtered_sources inp, year \<leftarrow> years])
       (\<lambda>vs. Inr (fsum vs))"

text \<open>Lines 242--246: the total, then one of the two messages.\<close>

definition emissions_lines :: "pyfloat \<Rightarrow> real \<Rightarrow> line list" where
  "emissions_lines produced target =
     [Total_Emissions produced target,
      if exceeds produced target then Emissions_Exceed (fmap (\<lambda>p. p - target) produced)
      else Emissions_Below (fmap (\<lambda>p. target - p) produced)]"

text \<open>
  The report printed when the solver's status is optimal, from the solved values \<open>x\<close>.
  The value of the emissions slack is only written to the log (line 240). The values of
  lines 190--212 are read under the keys the variables were created from; the three sums
  over \<^verbatim>\<open>capital_cost\<close> can raise, and the outcome is then the error alone.
\<close>

definition report :: "tables \<Rightarrow> built \<Rightarrow> (var \<Rightarrow> real) \<Rightarrow> error + line list" where
  "report inp b x =
     (let total_investment_made =
            (\<Sum>(s, y) \<leftarrow> List.product (filtered_sources inp) years. x (Investment s y));
          part1 = [Total_Investment (format_inr (total_investment_made / 10 ^ 7))]
                  @ concat [source_lines x source. source \<leftarrow> filtered_sources inp]
                  @ concat [year_lines inp x year. year \<leftarrow> years] in
      err_bind (renewable_capacity_achieved inp x) (\<lambda>rca.
      let part2 = [Capacity_Achieved rca (b_capacity_target b)]
                  @ (if x Slack_Renewable_Capacity > 0.5
                     then [Capacity_Shortfall (x Slack_Renewable_Capacity)] else []) in
      err_bind (renewable_production_achieved inp x) (\<lambda>rpa.
      let part3 = [Production_Achieved rpa (b_production_target b)]
                  @ (if x Slack_Renewable_Production > 0.5
                     then [Production_Shortfall (x Slack_Renewable_Production / 10 ^ 6)] else []) in
      err_bind (emissions_produced inp x) (\<lambda>ep.
        Inr (part1 @ part2 @ part3 @ emissions_lines ep (b_emission_target b))))))"

datatype status = OPTIMAL | NOT_OPTIMAL

text \<open>Lines 184 and 255: a report only on optimal status.\<close>

definition result_analysis :: "tables \<Rightarrow> built \<Rightarrow> status \<Rightarrow> (var \<Rightarrow> real) \<Rightarrow> error + line list" where
  "result_analysis inp b st x = (case st of OPTIMAL \<Rightarrow> report inp b x | NOT_OPTIMAL \<Rightarrow> Inr [])"


subsection \<open>Reading an outcome\<close>


text \<open>The value of line 93 for a source, where it has one.\<close>

definition target_cost :: "tables \<Rightarrow> string \<Rightarrow> real" where
  "target_cost inp source =
     (case total_target_cost inp source of Inr (Num cost) \<Rightarrow> cost | _ \<Rightarrow> 0)"

definition target_constrs :: "tables \<Rightarrow> string list \<Rightarrow> constr list" where
  "target_constrs inp ss = [target_constr inp source (target_cost inp source). source \<leftarrow> ss]"

text \<open>The entry of a dictionary for a key that is known to be present.\<close>

definition value_of :: "(string \<rightharpoonup> real) \<Rightarrow> string \<Rightarrow> real" where
  "value_of d k = (case d k of None \<Rightarrow> 0 | Some v \<Rightarrow> v)"

text \<open>The capital cost of a source whose cell is known to hold a number.\<close>

definition cost_of :: "tables \<Rightarrow> string \<Rightarrow> real" where
  "cost_of inp s = (case capital_cost inp s of Some (Num k) \<Rightarrow> k | _ \<Rightarrow> 0)"

subsection \<open>The targets as the specification words them\<close>

text \<open>
  The renewable-capacity target: the sum of the target capacities of the renewable sources.
\<close>

definition spec_capacity_target :: "tables \<Rightarrow> real" where
  "spec_capacity_target inp = (\<Sum>s \<leftarrow> renewable_sources. value_of (target_capacity inp) s)"

text \<open>
  targetProduction: the sum over the renewable sources of
  (targetCapacity - currentCapacity) times capacityFactor times 8760 / \<open>10\<^sup>6\<close>.
\<close>

definition spec_target_production :: "tables \<Rightarrow> real" where
  "spec_target_production inp =
     (\<Sum>s \<leftarrow> renewable_sources.
        (value_of (target_capacity inp) s - value_of (current_capacity inp) s)
          * value_of capacity_factors s * 8760 / 10 ^ 6)"

text \<open>
  emissionTarget: 0.43 times targetProduction times \<open>10\<^sup>6\<close>, plus the sum over the filtered
  sources of emissionFactor times (targetCapacity - currentCapacity) times capacityFactor
  times 8760 / \<open>10\<^sup>3\<close>.
\<close>

definition spec_emission_target :: "tables \<Rightarrow> real" where
  "spec_emission_target inp =
     0.43 * spec_target_production inp * 10 ^ 6
     + (\<Sum>s \<leftarrow> filtered_sources inp.
          value_of (emission_factors inp) s
            * (value_of (target_capacity inp) s - value_of (current_capacity inp) s)
            * value_of capacity_factors s * 8760 / 10 ^ 3)"

text \<open>
  The left-hand side of the emissions constraint at the values \<open>x\<close>: the sum over the
  filtered sources and the years of Investment / capitalCost times emissionFactor.
\<close>

definition spec_emissions_lhs :: "tables \<Rightarrow> (var \<Rightarrow> real) \<Rightarrow> real" where
  "spec_emissions_lhs inp x =
     (\<Sum>s \<leftarrow> filtered_sources inp. \<Sum>y \<leftarrow> years.
        x (Investment s y) / cost_of inp s * value_of (emission_factors inp) s)"

subsection \<open>The model that a successful construction returns\<close>

text \<open>\<^verbatim>\<open>investment[s, y] / capital_cost[s]\<close> where the division does not raise.\<close>

definition per_cost :: "tables \<Rightarrow> string \<Rightarrow> int \<Rightarrow> linexpr" where
  "per_cost inp s y = scale_expr (1 / cost_of inp s) (var_expr (Investment s y))"

definition capacity_constr :: "tables \<Rightarrow> constr" where
  "capacity_constr inp =
     \<lparr>c_name = Renewable_Capacity,
      c_lhs = add_expr
                (quicksum (map (\<lambda>(s, y). per_cost inp s y) (List.product renewable_sources years)))
                (var_expr Slack_Renewable_Capacity),
      c_sense = GE,
      c_rhs = const_expr (spec_capacity_target inp)\<rparr>"

definition production_constr :: "tables \<Rightarrow> constr" where
  "production_constr inp =
     \<lparr>c_name = Renewable_Production,
      c_lhs = add_expr
                (quicksum (map (\<lambda>(s, y). scale_expr 8760 (scale_expr (value_of capacity_factors s)
                                             (per_cost inp s y)))
                               (List.product renewable_sources years)))
                (var_expr Slack_Renewable_Production),
      c_sense = GE,
      c_rhs = const_expr (spec_target_production inp * 10 ^ 6)\<rparr>"

definition emissions_constr :: "tables \<Rightarrow> constr" where
  "emissions_constr inp =
     \<lparr>c_name = Emissions,
      c_lhs = quicksum (map (\<lambda>(s, y). scale_expr (value_of (emission_factors inp) s)
                                        (per_cost inp s y))
                            (List.product (filtered_sources inp) years)),
      c_sense = LE,
      c_rhs = add_expr (const_expr (spec_emission_target inp)) (var_expr Slack_Emissions)\<rparr>"

definition full_model :: "tables \<Rightarrow> built" where
  "full_model inp =
     \<lparr>b_model =
        \<lparr>m_vars = model_vars inp,
         m_objective = objective inp,
         m_constrs = target_constrs inp (filtered_sources inp) @ budget_constrs inp
                     @ [capacity_constr inp, production_constr inp, emissions_constr inp]\<rparr>,
      b_capacity_target = spec_capacity_target inp,
      b_production_target = spec_target_production inp,
      b_emission_target = spec_emission_target inp\<rparr>"

text \<open>The conditions under which no statement of the construction raises.\<close>

definition costs_numbers :: "tables \<Rightarrow> bool" where
  "costs_numbers inp \<longleftrightarrow> (\<forall>s \<in> set (filtered_sources inp). capital_cost inp s \<noteq> Some NaN)"

definition renewables_present :: "tables \<Rightarrow> bool" where
  "renewables_present inp \<longleftrightarrow> set renewable_sources \<subseteq> set (filtered_sources inp)"

definition costs_nonzero :: "tables \<Rightarrow> bool" where
  "costs_nonzero inp \<longleftrightarrow> (\<forall>s \<in> set (filtered_sources inp). capital_cost inp s \<noteq> Some (Num 0))"

subsection \<open>The report of a successful run\<close>

text \<open>The lines of the report when no expression of the analysis raises.\<close>

definition printed :: "tables \<Rightarrow> built \<Rightarrow> (var \<Rightarrow> real) \<Rightarrow> line list" where
  "printed inp b x =
     [Total_Investment
        (format_inr ((\<Sum>(s, y) \<leftarrow> List.product (filtered_sources inp) years. x (Investment s y))
                       / 10 ^ 7))]
     @ concat [source_lines x source. source \<leftarrow> filtered_sources inp]
     @ concat [year_lines inp x year. year \<leftarrow> years]
     @ [Capacity_Achieved
          (Num (\<Sum>s \<leftarrow> renewable_sources. \<Sum>y \<leftarrow> years.
                  x (Investment s y) / cost_of inp s))
          (b_capacity_target b)]
     @ (if x Slack_Renewable_Capacity > 0.5
        then [Capacity_Shortfall (x Slack_Renewable_Capacity)] else [])
     @ [Production_Achieved
          (Num (\<Sum>s \<leftarrow> renewable_sources. \<Sum>y \<leftarrow> years.
                  x (Investment s y) / cost_of inp s
                    * value_of capacity_factors s * 8760 / 10 ^ 6))
          (b_production_target b)]
     @ (if x Slack_Renewable_Production > 0.5
        then [Production_Shortfall (x Slack_Renewable_Production / 10 ^ 6)] else [])
     @ emissions_lines (Num (8760 * spec_emissions_lhs inp x)) (b_emission_target b)"

section \<open>Concrete inputs\<close>

text \<open>
  A table with the four renewable sources and one goal row per source. For Solar, \<open>k\<close> is
  the capital cost per MW, \<open>cur\<close> the current capacity in MW and \<open>goal\<close> the target in GW;
  the other three sources cost \<open>10\<^sup>7\<close> per MW and stand at their targets of 1 GW. Every source
  has the emission factor \<open>ef\<close>.
\<close>

definition renewables_input :: "pyfloat \<Rightarrow> real \<Rightarrow> real \<Rightarrow> real \<Rightarrow> tables" where
  "renewables_input k ef cur goal =
     \<lparr>emissions_data =
        [\<lparr>Source = ''Solar'', Capital_Cost = k, Current_Production = cur, Emission_Factor = ef\<rparr>,
         \<lparr>Source = ''Wind'', Capital_Cost = Num (10 ^ 7), Current_Production = 1000, Emission_Factor = ef\<rparr>,
         \<lparr>Source = ''Hydropower'', Capital_Cost = Num (10 ^ 7), Current_Production = 1000,
          Emission_Factor = ef\<rparr>,
         \<lparr>Source = ''Biomass'', Capital_Cost = Num (10 ^ 7), Current_Production = 1000,
          Emission_Factor = ef\<rparr>],
      potential_plants_data = [],
      goals_data =
        [\<lparr>Goal = ''Solar Capacity (GW)'', Target_Value = goal\<rparr>,
         \<lparr>Goal = ''Wind Capacity (GW)'', Target_Value = 1\<rparr>,
         \<lparr>Goal = ''Hydropower Capacity (GW)'', Target_Value = 1\<rparr>,
         \<lparr>Goal = ''Biomass Capacity (GW)'', Target_Value = 1\<rparr>]\<rparr>"



text \<open>Every source stands at its target and emits nothing.\<close>

definition balanced_input :: tables where
  "balanced_input = renewables_input (Num (10 ^ 7)) 0 1000 1"




text \<open>Solar is to grow from nothing to 1 GW; every source emits 0.1 kg per kWh.\<close>

definition growth_input :: tables where
  "growth_input = renewables_input (Num (10 ^ 7)) 0.1 0 1"

text \<open>Every source stands at its target and emits 0.1 kg per kWh.\<close>

definition emitting_input :: tables where
  "emitting_input = renewables_input (Num (10 ^ 7)) 0.1 1000 1"

subsection \<open>Solved values for the concrete inputs\<close>

text \<open>
  Values for the variables: every year the minimum annual budget is invested, all of it in
  Solar except for the amount \<open>w\<close> that goes to Wind in 2024; the emissions slack is \<open>e\<close> and
  every other slack is zero.
\<close>

definition plan :: "real \<Rightarrow> real \<Rightarrow> var \<Rightarrow> real" where
  "plan w e v =
     (case v of
        Investment s y \<Rightarrow>
          if s = ''Solar'' then (if y = 2024 then min_annual_budget - w else min_annual_budget)
          else if s = ''Wind'' \<and> y = 2024 then w
          else 0
      | Slack_Emissions \<Rightarrow> e
      | _ \<Rightarrow> 0)"

section \<open>Basic facts about the parameters and expressions\<close>

lemma years_eq: "years = [2024, 2025, 2026, 2027, 2028, 2029, 2030]"
  unfolding years_def by (simp add: upto_rec1)

lemma length_years: "length years = 7"
  by (simp add: years_eq)

lemma eval_var_expr: "eval_expr x (var_expr v) = x v"
  by (simp add: eval_expr_def var_expr_def)

lemma eval_const_expr: "eval_expr x (const_expr c) = c"
  by (simp add: eval_expr_def const_expr_def)

lemma eval_add_expr: "eval_expr x (add_expr a b) = eval_expr x a + eval_expr x b"
  by (simp add: eval_expr_def add_expr_def)

lemma eval_scale_expr: "eval_expr x (scale_expr k a) = k * eval_expr x a"
proof -
  have "(\<Sum>(c, v) \<leftarrow> map (\<lambda>(c, v). (k * c, v)) ts. c * x v) = k * (\<Sum>(c, v) \<leftarrow> ts. c * x v)" for ts
    by (induction ts) (auto simp: algebra_simps)
  then show ?thesis by (simp add: eval_expr_def scale_expr_def algebra_simps)
qed

lemma eval_quicksum: "eval_expr x (quicksum es) = (\<Sum>e \<leftarrow> es. eval_expr x e)"
  by (induction es) (auto simp: eval_expr_def quicksum_def)

lemma dom_dict_of: "dom (dict_of kvs) = fst ` set kvs"
  by (simp add: dict_of_def dom_map_of_conv_image_fst)

lemma dict_of_zip_None: "dict_of (zip (map f rows) (map g rows)) k = None \<longleftrightarrow> k \<notin> f ` set rows"
proof -
  have "fst ` set (zip (map f rows) (map g rows)) = f ` set rows"
    by (induction rows) auto
  then have "dom (dict_of (zip (map f rows) (map g rows))) = f ` set rows"
    by (simp add: dom_dict_of)
  thus ?thesis by (metis domIff)
qed

lemma capital_cost_None: "capital_cost inp s = None \<longleftrightarrow> s \<notin> set (sources inp)"
  by (simp add: capital_cost_def sources_def dict_of_zip_None)

lemma current_capacity_None: "current_capacity inp s = None \<longleftrightarrow> s \<notin> set (sources inp)"
  by (simp add: current_capacity_def sources_def dict_of_zip_None)

lemma emission_factors_None: "emission_factors inp s = None \<longleftrightarrow> s \<notin> set (sources inp)"
  by (simp add: emission_factors_def sources_def dict_of_zip_None)

lemma set_filtered_sources:
  "set (filtered_sources inp) = {s \<in> set (sources inp). target_capacity inp s \<noteq> None}"
  by (simp add: filtered_sources_def)


lemma goal_mappings_cases:
  "goal_mappings g = Some s \<Longrightarrow>
     s \<in> {''Coal'', ''Natural Gas'', ''Nuclear'', ''Solar'', ''Wind'', ''Hydropower'', ''Biomass''}"
  by (simp add: goal_mappings_def dict_of_def split: if_splits)


lemma target_capacity_SomeD:
  "target_capacity inp s = Some v \<Longrightarrow>
     \<exists>row \<in> set (goals_data inp). goal_mappings (Goal row) = Some s \<and> v = Target_Value row * 1000"
  unfolding target_capacity_def dict_of_def
  by (drule map_of_SomeD) auto

lemma target_capacity_None:
  "target_capacity inp s = None \<longleftrightarrow> (\<forall>row \<in> set (goals_data inp). goal_mappings (Goal row) \<noteq> Some s)"
proof
  assume n: "target_capacity inp s = None"
  show "\<forall>row \<in> set (goals_data inp). goal_mappings (Goal row) \<noteq> Some s"
  proof
    fix row assume r: "row \<in> set (goals_data inp)"
    show "goal_mappings (Goal row) \<noteq> Some s"
    proof
      assume g: "goal_mappings (Goal row) = Some s"
      with r have "(s, Target_Value row * 1000) \<in>
         set (rev [(the (goal_mappings (Goal row)), Target_Value row * 1000).
               row \<leftarrow> goals_data inp, goal_mappings (Goal row) \<noteq> None])"
        by force
      then have "s \<in> fst ` set (rev [(the (goal_mappings (Goal row)), Target_Value row * 1000).
               row \<leftarrow> goals_data inp, goal_mappings (Goal row) \<noteq> None])"
        by (rule rev_image_eqI) simp
      then have "target_capacity inp s \<noteq> None"
        unfolding target_capacity_def dict_of_def
        by (simp only: map_of_eq_None_iff not_not)
      with n show False by simp
    qed
  qed
next
  assume a: "\<forall>row \<in> set (goals_data inp). goal_mappings (Goal row) \<noteq> Some s"
  show "target_capacity inp s = None"
  proof (cases "target_capacity inp s")
    case None then show ?thesis .
  next
    case (Some v)
    from target_capacity_SomeD[OF this] a show ?thesis by blast
  qed
qed

lemma capacity_factors_names:
  "s \<in> {''Coal'', ''Natural Gas'', ''Nuclear'', ''Solar'', ''Wind'', ''Hydropower'', ''Biomass''}
   \<Longrightarrow> capacity_factors s \<noteq> None"
  by (elim insertE emptyE) (simp_all add: capacity_factors_def dict_of_def)

lemma capacity_factors_target:
  assumes "target_capacity inp s \<noteq> None"
  shows "capacity_factors s \<noteq> None"
proof -
  from assms have "\<exists>row \<in> set (goals_data inp). goal_mappings (Goal row) = Some s"
    by (simp add: target_capacity_None)
  then obtain g where "goal_mappings g = Some s" by blast
  from capacity_factors_names[OF goal_mappings_cases[OF this]] show ?thesis .
qed

lemma collect_map_Inr_id: "collect (map Inr vs) = Inr vs"
  by (induction vs) auto

lemma collect_Inr_D: "collect rs = Inr vs \<Longrightarrow> rs = map Inr vs"
  by (induction rs arbitrary: vs) (auto split: sum.splits)

lemma collect_Inl_D:
  "collect rs = Inl e \<Longrightarrow> Inl e \<in> set rs"
  by (induction rs) (auto split: sum.splits)

lemma collect_fails:
  "Inl e \<in> set rs \<Longrightarrow> \<exists>e'. collect rs = Inl e'"
  by (induction rs) (auto split: sum.splits)

lemma collect_map_Inr:
  "(\<And>a. a \<in> set as \<Longrightarrow> f a = Inr (g a)) \<Longrightarrow> collect (map f as) = Inr (map g as)"
  by (induction as) auto

lemma lookup_Some: "d k = Some v \<Longrightarrow> lookup d k = Inr v"
  by (simp add: lookup_def)

lemma lookup_None: "d k = None \<Longrightarrow> lookup d k = Inl (KeyError k)"
  by (simp add: lookup_def)

lemma err_bind_Inr: "err_bind (Inr v) f = f v"
  by (simp add: err_bind_def)

lemma err_bind_Inl: "err_bind (Inl e) f = Inl e"
  by (simp add: err_bind_def)

lemma filtered_sourcesD:
  assumes "s \<in> set (filtered_sources inp)"
  shows "\<exists>t c k ef f. target_capacity inp s = Some t \<and> current_capacity inp s = Some c \<and>
           capital_cost inp s = Some k \<and> emission_factors inp s = Some ef \<and>
           capacity_factors s = Some f"
proof -
  from assms have a: "s \<in> set (sources inp)" and b: "target_capacity inp s \<noteq> None"
    by (simp_all add: set_filtered_sources)
  from a have "current_capacity inp s \<noteq> None" "capital_cost inp s \<noteq> None"
    "emission_factors inp s \<noteq> None"
    by (simp_all add: current_capacity_None capital_cost_None emission_factors_None)
  with b capacity_factors_target[OF b] show ?thesis by auto
qed

lemma cost_of_Num: "capital_cost inp s = Some (Num k) \<Longrightarrow> cost_of inp s = k"
  by (simp add: cost_of_def)

lemma cost_of_nonzeroD:
  "cost_of inp s \<noteq> 0 \<Longrightarrow> \<exists>k. capital_cost inp s = Some (Num k) \<and> k \<noteq> 0"
  by (auto simp: cost_of_def split: option.splits pyfloat.splits)

lemma cost_cases:
  obtains (missing) "capital_cost inp s = None"
  | (nan) "capital_cost inp s = Some NaN"
  | (num) k where "capital_cost inp s = Some (Num k)"
proof (cases "capital_cost inp s")
  case None
  then show ?thesis by (rule missing)
next
  case (Some a)
  then show ?thesis by (cases a) (auto intro: nan num)
qed

lemma total_target_cost_filtered:
  assumes "s \<in> set (filtered_sources inp)" "capital_cost inp s \<noteq> Some NaN"
  shows "total_target_cost inp s = Inr (Num (target_cost inp s))"
proof -
  from filtered_sourcesD[OF assms(1)] obtain t c k where
    "target_capacity inp s = Some t" "current_capacity inp s = Some c" "capital_cost inp s = Some k"
    by blast
  moreover with assms(2) obtain d where "k = Num d" by (cases k) auto
  ultimately have "total_target_cost inp s = Inr (Num ((t - c) * d))"
    by (simp add: total_target_cost_def lookup_Some err_bind_Inr fmap_def)
  then show ?thesis by (simp add: target_cost_def)
qed

lemma total_target_cost_NaN:
  assumes "s \<in> set (filtered_sources inp)" "capital_cost inp s = Some NaN"
  shows "total_target_cost inp s = Inr NaN"
proof -
  from filtered_sourcesD[OF assms(1)] obtain t c where
    "target_capacity inp s = Some t" "current_capacity inp s = Some c"
    by blast
  with assms(2) show ?thesis
    by (simp add: total_target_cost_def lookup_Some err_bind_Inr fmap_def)
qed

lemma target_constrs_append:
  "target_constrs inp (ss @ ts) = target_constrs inp ss @ target_constrs inp ts"
  by (simp add: target_constrs_def)

lemma target_loop_filtered:
  "set ss \<subseteq> set (filtered_sources inp) \<Longrightarrow> \<forall>s \<in> set ss. capital_cost inp s \<noteq> Some NaN \<Longrightarrow>
     target_loop inp ss cs = (cs @ target_constrs inp ss, None)"
proof (induction ss arbitrary: cs)
  case Nil
  then show ?case by (simp add: target_constrs_def)
next
  case (Cons s ss)
  then show ?case
    by (simp add: total_target_cost_filtered target_constrs_def)
qed

lemma target_loop_all:
  "costs_numbers inp \<Longrightarrow>
     target_loop inp (filtered_sources inp) [] = (target_constrs inp (filtered_sources inp), None)"
  using target_loop_filtered[of "filtered_sources inp" inp "[]"] by (simp add: costs_numbers_def)

text \<open>The loop stops at the first source with an empty cost cell.\<close>

lemma target_loop_NaN:
  "set ss \<subseteq> set (filtered_sources inp) \<Longrightarrow> \<exists>s \<in> set ss. capital_cost inp s = Some NaN \<Longrightarrow>
     \<exists>pre s post. ss = pre @ s # post \<and> capital_cost inp s = Some NaN
        \<and> (\<forall>s' \<in> set pre. capital_cost inp s' \<noteq> Some NaN)
        \<and> target_loop inp ss cs = (cs @ target_constrs inp pre, Some GurobiError)"
proof (induction ss arbitrary: cs)
  case Nil
  then show ?case by simp
next
  case (Cons a ss)
  show ?case
  proof (cases "capital_cost inp a = Some NaN")
    case True
    with Cons.prems(1) have "target_loop inp (a # ss) cs = (cs @ target_constrs inp [], Some GurobiError)"
      by (simp add: total_target_cost_NaN target_constrs_def)
    with True show ?thesis
      by (intro exI[of _ "[]"] exI[of _ a] exI[of _ ss]) simp
  next
    case False
    with Cons.prems have sub: "set ss \<subseteq> set (filtered_sources inp)"
      and ex: "\<exists>s \<in> set ss. capital_cost inp s = Some NaN" by auto
    from Cons.IH[OF sub ex, of "cs @ [target_constr inp a (target_cost inp a)]"]
    obtain pre s post where p: "ss = pre @ s # post" "capital_cost inp s = Some NaN"
      "\<forall>s' \<in> set pre. capital_cost inp s' \<noteq> Some NaN"
      "target_loop inp ss (cs @ [target_constr inp a (target_cost inp a)])
         = ((cs @ [target_constr inp a (target_cost inp a)]) @ target_constrs inp pre,
            Some GurobiError)"
      by blast
    from Cons.prems(1) False
    have "target_loop inp (a # ss) cs
            = target_loop inp ss (cs @ [target_constr inp a (target_cost inp a)])"
      by (simp add: total_target_cost_filtered)
    with p(4) have "target_loop inp (a # ss) cs
            = (cs @ target_constrs inp (a # pre), Some GurobiError)"
      by (simp add: target_constrs_def)
    with p(1,2,3) False show ?thesis
      by (intro exI[of _ "a # pre"] exI[of _ s] exI[of _ post]) simp
  qed
qed

text \<open>The three ways in which the construction can stop.\<close>

lemma build_duplicate:
  "\<not> distinct (filtered_sources inp) \<Longrightarrow> build inp = Failed duplicate_keys []"
  by (simp add: build_def)

lemma build_NaN:
  assumes "distinct (filtered_sources inp)" "\<not> costs_numbers inp"
  shows "\<exists>pre s post. filtered_sources inp = pre @ s # post \<and> capital_cost inp s = Some NaN
           \<and> (\<forall>s' \<in> set pre. capital_cost inp s' \<noteq> Some NaN)
           \<and> build inp = Failed GurobiError (target_constrs inp pre)"
proof -
  from assms(2) have "\<exists>s \<in> set (filtered_sources inp). capital_cost inp s = Some NaN"
    by (simp add: costs_numbers_def)
  from target_loop_NaN[OF subset_refl this, of "[]"]
  obtain pre s post where p: "filtered_sources inp = pre @ s # post"
    "capital_cost inp s = Some NaN" "\<forall>s' \<in> set pre. capital_cost inp s' \<noteq> Some NaN"
    "target_loop inp (filtered_sources inp) [] = ([] @ target_constrs inp pre, Some GurobiError)"
    by blast
  from p(4) assms(1) have "build inp = Failed GurobiError (target_constrs inp pre)"
    by (simp add: build_def)
  with p(1,2,3) show ?thesis by blast
qed

lemma build_Built_distinct: "build inp = Built b \<Longrightarrow> distinct (filtered_sources inp)"
  by (rule ccontr) (simp add: build_duplicate)

lemma build_Built_numbers:
  assumes "build inp = Built b"
  shows "costs_numbers inp"
proof (rule ccontr)
  assume "\<not> costs_numbers inp"
  from build_NaN[OF build_Built_distinct[OF assms] this] assms show False by auto
qed


lemma build_Built_D:
  assumes "build inp = Built b"
  shows "\<exists>rct rpt lhs_rc lhs_rp tet lhs_em.
     total_renewable_capacity_target inp = Inr rct \<and>
     total_renewable_production_target inp = Inr rpt \<and>
     renewable_capacity_lhs inp = Inr lhs_rc \<and>
     renewable_production_lhs inp = Inr lhs_rp \<and>
     total_emission_target inp rpt = Inr tet \<and>
     emissions_lhs inp = Inr lhs_em \<and>
     b = \<lparr>b_model = \<lparr>m_vars = model_vars inp, m_objective = objective inp,
            m_constrs = target_constrs inp (filtered_sources inp) @ budget_constrs inp @
              [\<lparr>c_name = Renewable_Capacity, c_lhs = lhs_rc, c_sense = GE, c_rhs = const_expr rct\<rparr>,
               \<lparr>c_name = Renewable_Production, c_lhs = lhs_rp, c_sense = GE,
                c_rhs = const_expr (rpt * 10 ^ 6)\<rparr>,
               \<lparr>c_name = Emissions, c_lhs = lhs_em, c_sense = LE,
                c_rhs = add_expr (const_expr tet) (var_expr Slack_Emissions)\<rparr>]\<rparr>,
          b_capacity_target = rct, b_production_target = rpt, b_emission_target = tet\<rparr>"
  using assms build_Built_distinct[OF assms] build_Built_numbers[OF assms]
  by (auto simp: build_def target_loop_all Let_def split: sum.splits)

lemma sources_renewables_input:
  "sources (renewables_input k ef cur goal) = [''Solar'', ''Wind'', ''Hydropower'', ''Biomass'']"
  by (simp add: sources_def renewables_input_def)

lemma target_capacity_renewables_input:
  "target_capacity (renewables_input k ef cur goal) =
     [''Solar'' \<mapsto> goal * 1000, ''Wind'' \<mapsto> 1000, ''Hydropower'' \<mapsto> 1000, ''Biomass'' \<mapsto> 1000]"
  by (simp add: target_capacity_def renewables_input_def goal_mappings_def dict_of_def)

lemma filtered_renewables_input:
  "filtered_sources (renewables_input k ef cur goal) = [''Solar'', ''Wind'', ''Hydropower'', ''Biomass'']"
  by (simp add: filtered_sources_def sources_renewables_input target_capacity_renewables_input)

lemma capital_cost_renewables_input:
  "capital_cost (renewables_input k ef cur goal) =
     [''Solar'' \<mapsto> k, ''Wind'' \<mapsto> Num (10 ^ 7), ''Hydropower'' \<mapsto> Num (10 ^ 7),
      ''Biomass'' \<mapsto> Num (10 ^ 7)]"
  by (simp add: capital_cost_def renewables_input_def dict_of_def)

lemma current_capacity_renewables_input:
  "current_capacity (renewables_input k ef cur goal) =
     [''Solar'' \<mapsto> cur, ''Wind'' \<mapsto> 1000, ''Hydropower'' \<mapsto> 1000, ''Biomass'' \<mapsto> 1000]"
  by (simp add: current_capacity_def renewables_input_def dict_of_def)

lemma emission_factors_renewables_input:
  "emission_factors (renewables_input k ef cur goal) =
     [''Solar'' \<mapsto> ef, ''Wind'' \<mapsto> ef, ''Hydropower'' \<mapsto> ef, ''Biomass'' \<mapsto> ef]"
  by (simp add: emission_factors_def renewables_input_def dict_of_def)

lemma concat_map_product:
  "concat (map (\<lambda>s. map (f s) ys) xs) = map (\<lambda>(s, y). f s y) (List.product xs ys)"
  by (induction xs) simp_all

lemma sum_list_product:
  "(\<Sum>(s, y) \<leftarrow> List.product xs ys. (g s y :: real)) = (\<Sum>s \<leftarrow> xs. \<Sum>y \<leftarrow> ys. g s y)"
  by (induction xs) (simp_all add: o_def)

lemma value_of_Some: "d k = Some v \<Longrightarrow> value_of d k = v"
  by (simp add: value_of_def)

lemma investment_keys_iff:
  "(s, y) \<in> set (investment_keys inp) \<longleftrightarrow> s \<in> set (filtered_sources inp) \<and> y \<in> set years"
  by (simp add: investment_keys_def)

lemma invest_per_cost_ok:
  assumes "s \<in> set (filtered_sources inp)" "y \<in> set years" "cost_of inp s \<noteq> 0"
  shows "invest_per_cost inp s y =
           Inr (scale_expr (1 / cost_of inp s) (var_expr (Investment s y)))"
proof -
  from cost_of_nonzeroD[OF assms(3)] obtain k where k: "capital_cost inp s = Some (Num k)" "k \<noteq> 0"
    by blast
  with assms(1,2) show ?thesis
    by (simp add: invest_per_cost_def investment_def investment_keys_iff err_bind_Inr
        lookup_Some div_expr_def cost_of_def)
qed

lemma invest_per_cost_zero:
  assumes "s \<in> set (filtered_sources inp)" "y \<in> set years" "capital_cost inp s = Some (Num 0)"
  shows "invest_per_cost inp s y = Inl ZeroDivisionError"
  using assms
  by (simp add: invest_per_cost_def investment_def investment_keys_iff err_bind_Inr
        lookup_Some div_expr_def)

lemma invest_per_cost_unfiltered:
  assumes "s \<notin> set (filtered_sources inp)"
  shows "invest_per_cost inp s y = Inl (KeyError s)"
  using assms
  by (simp add: invest_per_cost_def investment_def investment_keys_iff err_bind_Inl)

lemma lookup_Inl_D: "lookup d k = Inl e \<Longrightarrow> e = KeyError k \<and> d k = None"
  by (auto simp: lookup_def split: option.splits)

lemma capacity_target_ok:
  assumes "\<forall>s \<in> set renewable_sources. target_capacity inp s \<noteq> None"
  shows "total_renewable_capacity_target inp =
           Inr (\<Sum>s \<leftarrow> renewable_sources. value_of (target_capacity inp) s)"
proof -
  have "collect (map (lookup (target_capacity inp)) renewable_sources)
          = Inr (map (value_of (target_capacity inp)) renewable_sources)"
    using assms by (intro collect_map_Inr) (auto simp: lookup_def value_of_def)
  then show ?thesis by (simp add: total_renewable_capacity_target_def err_bind_Inr)
qed

lemma capacity_target_fails:
  assumes "s \<in> set renewable_sources" "target_capacity inp s = None"
  shows "\<exists>k \<in> set renewable_sources. total_renewable_capacity_target inp = Inl (KeyError k)"
proof -
  let ?rs = "map (lookup (target_capacity inp)) renewable_sources"
  from assms have "Inl (KeyError s) \<in> set ?rs"
    by (auto simp: lookup_def image_iff intro!: bexI[of _ s])
  from collect_fails[OF this] obtain e where e: "collect ?rs = Inl e" by blast
  from collect_Inl_D[OF e] obtain k where "k \<in> set renewable_sources"
    "lookup (target_capacity inp) k = Inl e" by auto
  with lookup_Inl_D[of "target_capacity inp" k e] e show ?thesis
    by (auto simp: total_renewable_capacity_target_def err_bind_Inl)
qed

lemma production_gap_ok:
  assumes "s \<in> set (filtered_sources inp)"
  shows "production_gap inp s =
     Inr ((value_of (target_capacity inp) s - value_of (current_capacity inp) s)
           * value_of capacity_factors s * 8760 / 10 ^ 6)"
proof -
  from filtered_sourcesD[OF assms] obtain t c f where
    "target_capacity inp s = Some t" "current_capacity inp s = Some c" "capacity_factors s = Some f"
    by blast
  then show ?thesis
    by (simp add: production_gap_def lookup_Some err_bind_Inr value_of_def)
qed

lemma production_gap_Inl_D: "production_gap inp s = Inl e \<Longrightarrow> e = KeyError s"
  by (auto simp: production_gap_def err_bind_def lookup_def split: option.splits sum.splits)

lemma production_gap_fails:
  assumes "s \<notin> set (sources inp)" "target_capacity inp s \<noteq> None"
  shows "production_gap inp s = Inl (KeyError s)"
proof -
  from assms(1) have "current_capacity inp s = None" by (simp add: current_capacity_None)
  with assms(2) show ?thesis
    by (auto simp: production_gap_def err_bind_def lookup_def)
qed

lemma production_target_ok:
  assumes "set renewable_sources \<subseteq> set (filtered_sources inp)"
  shows "total_renewable_production_target inp =
     Inr (\<Sum>s \<leftarrow> renewable_sources.
            (value_of (target_capacity inp) s - value_of (current_capacity inp) s)
              * value_of capacity_factors s * 8760 / 10 ^ 6)"
proof -
  have "collect (map (production_gap inp) renewable_sources)
          = Inr (map (\<lambda>s. (value_of (target_capacity inp) s - value_of (current_capacity inp) s)
              * value_of capacity_factors s * 8760 / 10 ^ 6) renewable_sources)"
    using assms by (intro collect_map_Inr) (auto simp: production_gap_ok)
  then show ?thesis by (simp add: total_renewable_production_target_def err_bind_Inr)
qed

lemma production_target_fails:
  assumes "s \<in> set renewable_sources" "s \<notin> set (sources inp)"
    "\<forall>s \<in> set renewable_sources. target_capacity inp s \<noteq> None"
  shows "\<exists>k \<in> set renewable_sources. total_renewable_production_target inp = Inl (KeyError k)"
proof -
  let ?rs = "map (production_gap inp) renewable_sources"
  from assms have "Inl (KeyError s) \<in> set ?rs"
    by (auto simp: image_iff production_gap_fails intro!: bexI[of _ s])
  from collect_fails[OF this] obtain e where e: "collect ?rs = Inl e" by blast
  from collect_Inl_D[OF e] obtain k where "k \<in> set renewable_sources"
    "production_gap inp k = Inl e" by auto
  with production_gap_Inl_D[of inp k e] e show ?thesis
    by (auto simp: total_renewable_production_target_def err_bind_Inl)
qed

text \<open>A renewable source without a goal row or without a row in the cost table stops the
  construction at lines 115--122.\<close>

lemma build_renewable_missing:
  assumes d: "distinct (filtered_sources inp)" and n: "costs_numbers inp"
    and s: "s \<in> set renewable_sources" "target_capacity inp s = None \<or> s \<notin> set (sources inp)"
  shows "\<exists>k \<in> set renewable_sources.
           build inp = Failed (KeyError k)
             (target_constrs inp (filtered_sources inp) @ budget_constrs inp)"
proof (cases "\<forall>s \<in> set renewable_sources. target_capacity inp s \<noteq> None")
  case False
  then obtain s' where "s' \<in> set renewable_sources" "target_capacity inp s' = None" by blast
  from capacity_target_fails[OF this] d show ?thesis
    by (auto simp: build_def target_loop_all[OF n])
next
  case True
  with s have "s \<notin> set (sources inp)" by blast
  from production_target_fails[OF s(1) this True] capacity_target_ok[OF True] d
  show ?thesis
    by (auto simp: build_def target_loop_all[OF n])
qed

lemma collect_product_Inr:
  assumes "\<And>s y. s \<in> set xs \<Longrightarrow> y \<in> set ys \<Longrightarrow> f s y = Inr (g s y)"
  shows "collect (concat (map (\<lambda>s. map (f s) ys) xs))
           = Inr (map (\<lambda>(s, y). g s y) (List.product xs ys))"
proof -
  have "collect (map (\<lambda>(s, y). f s y) (List.product xs ys))
          = Inr (map (\<lambda>(s, y). g s y) (List.product xs ys))"
    using assms by (intro collect_map_Inr) auto
  then show ?thesis by (simp add: concat_map_product)
qed

lemma collect_product_fails:
  assumes "s \<in> set xs" "y \<in> set ys" "f s y = Inl e"
  shows "\<exists>e'. collect (concat (map (\<lambda>s. map (f s) ys) xs)) = Inl e'"
proof -
  from assms have "Inl e \<in> set (concat (map (\<lambda>s. map (f s) ys) xs))"
    by (auto simp: image_iff intro!: bexI[of _ s] bexI[of _ y])
  from collect_fails[OF this] show ?thesis .
qed

lemma years_nonempty: "2024 \<in> set years"
  by (simp add: years_eq)

lemma renewable_capacity_lhs_ok:
  assumes "set renewable_sources \<subseteq> set (filtered_sources inp)"
    "\<forall>s \<in> set renewable_sources. cost_of inp s \<noteq> 0"
  shows "renewable_capacity_lhs inp =
     Inr (add_expr (quicksum (map (\<lambda>(s, y). per_cost inp s y) (List.product renewable_sources years)))
                   (var_expr Slack_Renewable_Capacity))"
proof -
  have "collect (concat (map (\<lambda>s. map (invest_per_cost inp s) years) renewable_sources))
          = Inr (map (\<lambda>(s, y). per_cost inp s y) (List.product renewable_sources years))"
    using assms by (intro collect_product_Inr) (auto simp: invest_per_cost_ok per_cost_def)
  then show ?thesis by (simp add: renewable_capacity_lhs_def err_bind_Inr)
qed

lemma production_term_ok:
  assumes "s \<in> set (filtered_sources inp)" "y \<in> set years" "cost_of inp s \<noteq> 0"
  shows "production_term inp s y =
           Inr (scale_expr 8760 (scale_expr (value_of capacity_factors s) (per_cost inp s y)))"
proof -
  from filtered_sourcesD[OF assms(1)] obtain f where "capacity_factors s = Some f" by blast
  then show ?thesis
    by (simp add: production_term_def invest_per_cost_ok[OF assms] err_bind_Inr lookup_Some
        value_of_def per_cost_def)
qed

lemma renewable_production_lhs_ok:
  assumes "set renewable_sources \<subseteq> set (filtered_sources inp)"
    "\<forall>s \<in> set renewable_sources. cost_of inp s \<noteq> 0"
  shows "renewable_production_lhs inp =
     Inr (add_expr
            (quicksum (map (\<lambda>(s, y). scale_expr 8760 (scale_expr (value_of capacity_factors s)
                                         (per_cost inp s y)))
                           (List.product renewable_sources years)))
            (var_expr Slack_Renewable_Production))"
proof -
  have "collect (concat (map (\<lambda>s. map (production_term inp s) years) renewable_sources))
          = Inr (map (\<lambda>(s, y). scale_expr 8760 (scale_expr (value_of capacity_factors s)
                                         (per_cost inp s y)))
                     (List.product renewable_sources years))"
    using assms by (intro collect_product_Inr) (auto simp: production_term_ok)
  then show ?thesis by (simp add: renewable_production_lhs_def err_bind_Inr)
qed

lemma emission_gap_ok:
  assumes "s \<in> set (filtered_sources inp)"
  shows "emission_gap inp s =
     Inr (value_of (emission_factors inp) s
            * (value_of (target_capacity inp) s - value_of (current_capacity inp) s)
            * value_of capacity_factors s * 8760 / 10 ^ 3)"
proof -
  from filtered_sourcesD[OF assms] obtain t c f ef where
    "target_capacity inp s = Some t" "current_capacity inp s = Some c" "capacity_factors s = Some f"
    "emission_factors inp s = Some ef"
    by blast
  then show ?thesis
    by (simp add: emission_gap_def lookup_Some err_bind_Inr value_of_def)
qed

lemma total_emission_target_ok:
  "total_emission_target inp p =
     Inr (0.43 * p * 10 ^ 6
          + (\<Sum>s \<leftarrow> filtered_sources inp.
               value_of (emission_factors inp) s
                 * (value_of (target_capacity inp) s - value_of (current_capacity inp) s)
                 * value_of capacity_factors s * 8760 / 10 ^ 3))"
proof -
  have "collect (map (emission_gap inp) (filtered_sources inp))
          = Inr (map (\<lambda>s. value_of (emission_factors inp) s
                 * (value_of (target_capacity inp) s - value_of (current_capacity inp) s)
                 * value_of capacity_factors s * 8760 / 10 ^ 3) (filtered_sources inp))"
    by (intro collect_map_Inr) (auto simp: emission_gap_ok)
  then show ?thesis by (simp add: total_emission_target_def err_bind_Inr)
qed

lemma emission_term_ok:
  assumes "s \<in> set (filtered_sources inp)" "y \<in> set years" "cost_of inp s \<noteq> 0"
  shows "emission_term inp s y =
           Inr (scale_expr (value_of (emission_factors inp) s) (per_cost inp s y))"
proof -
  from filtered_sourcesD[OF assms(1)] obtain ef where "emission_factors inp s = Some ef" by blast
  then show ?thesis
    by (simp add: emission_term_def invest_per_cost_ok[OF assms] err_bind_Inr lookup_Some
        value_of_def per_cost_def)
qed

lemma emissions_lhs_ok:
  assumes "\<forall>s \<in> set (filtered_sources inp). cost_of inp s \<noteq> 0"
  shows "emissions_lhs inp =
     Inr (quicksum (map (\<lambda>(s, y). scale_expr (value_of (emission_factors inp) s) (per_cost inp s y))
                        (List.product (filtered_sources inp) years)))"
proof -
  have "collect (concat (map (\<lambda>s. map (emission_term inp s) years) (filtered_sources inp)))
          = Inr (map (\<lambda>(s, y). scale_expr (value_of (emission_factors inp) s) (per_cost inp s y))
                     (List.product (filtered_sources inp) years))"
    using assms by (intro collect_product_Inr) (auto simp: emission_term_ok)
  then show ?thesis by (simp add: emissions_lhs_def err_bind_Inr)
qed

lemma costs_nonzero_value:
  "costs_numbers inp \<and> costs_nonzero inp \<longleftrightarrow> (\<forall>s \<in> set (filtered_sources inp). cost_of inp s \<noteq> 0)"
proof -
  have "capital_cost inp s \<noteq> Some NaN \<and> capital_cost inp s \<noteq> Some (Num 0) \<longleftrightarrow> cost_of inp s \<noteq> 0"
    if "s \<in> set (filtered_sources inp)" for s
    using filtered_sourcesD[OF that]
    by (auto simp: cost_of_def split: pyfloat.splits)
  then show ?thesis by (auto simp: costs_nonzero_def costs_numbers_def)
qed

lemma build_ok:
  assumes d: "distinct (filtered_sources inp)" and n: "costs_numbers inp"
    and "renewables_present inp" "costs_nonzero inp"
  shows "build inp = Built (full_model inp)"
proof -
  from assms(3) have r: "set renewable_sources \<subseteq> set (filtered_sources inp)"
    by (simp add: renewables_present_def)
  from n assms(4) have z: "\<forall>s \<in> set (filtered_sources inp). cost_of inp s \<noteq> 0"
    by (simp add: costs_nonzero_value[symmetric])
  from r z have zr: "\<forall>s \<in> set renewable_sources. cost_of inp s \<noteq> 0" by blast
  from r have t: "\<forall>s \<in> set renewable_sources. target_capacity inp s \<noteq> None"
    by (auto simp: set_filtered_sources)
  show ?thesis
    by (simp add: build_def d target_loop_all[OF n] capacity_target_ok[OF t] production_target_ok[OF r]
        renewable_capacity_lhs_ok[OF r zr] renewable_production_lhs_ok[OF r zr]
        total_emission_target_ok emissions_lhs_ok[OF z] full_model_def capacity_constr_def
        production_constr_def emissions_constr_def spec_capacity_target_def
        spec_target_production_def spec_emission_target_def)
qed

lemma build_Built_renewables:
  assumes "build inp = Built b"
  shows "renewables_present inp"
proof (rule ccontr)
  assume "\<not> renewables_present inp"
  then obtain s where s: "s \<in> set renewable_sources" "s \<notin> set (filtered_sources inp)"
    by (auto simp: renewables_present_def)
  then have "target_capacity inp s = None \<or> s \<notin> set (sources inp)"
    by (auto simp: set_filtered_sources)
  from build_renewable_missing[OF build_Built_distinct[OF assms] build_Built_numbers[OF assms]
      s(1) this] assms
  show False by auto
qed

lemma build_Built_costs:
  assumes "build inp = Built b"
  shows "costs_nonzero inp"
proof (rule ccontr)
  assume "\<not> costs_nonzero inp"
  then obtain s where s: "s \<in> set (filtered_sources inp)" "capital_cost inp s = Some (Num 0)"
    by (auto simp: costs_nonzero_def)
  have "emission_term inp s 2024 = Inl ZeroDivisionError"
    by (simp add: emission_term_def invest_per_cost_zero[OF s(1) years_nonempty s(2)] err_bind_Inl)
  from collect_product_fails[of s "filtered_sources inp" 2024 years "emission_term inp",
      OF s(1) years_nonempty this]
  obtain e where "emissions_lhs inp = Inl e"
    by (auto simp: emissions_lhs_def err_bind_Inl)
  with build_Built_D[OF assms] show False by auto
qed

lemma build_Built_iff:
  "build inp = Built b \<longleftrightarrow>
     distinct (filtered_sources inp) \<and> costs_numbers inp \<and> renewables_present inp
     \<and> costs_nonzero inp \<and> b = full_model inp"
  using build_ok[of inp] build_Built_renewables[of inp b] build_Built_costs[of inp b]
    build_Built_distinct[of inp b] build_Built_numbers[of inp b]
  by auto




lemma budget_constrs_mem:
  "c \<in> set (budget_constrs inp) \<longleftrightarrow>
     (\<exists>y \<in> set years. c = min_budget_constr inp y \<or> c = max_budget_constr inp y)"
  by (auto simp: budget_constrs_def)





lemma min_annual_budget_value: "min_annual_budget = 0.8 * (44 * 10 ^ 12 / 7)"
  by (simp add: min_annual_budget_def average_annual_investment_def total_investment_budget_def
      length_years)

lemma max_annual_budget_value: "max_annual_budget = 1.2 * (44 * 10 ^ 12 / 7)"
  by (simp add: max_annual_budget_def average_annual_investment_def total_investment_budget_def
      length_years)

lemma renewables_present_input: "renewables_present (renewables_input k ef cur goal)"
  by (simp add: renewables_present_def filtered_renewables_input renewable_sources_def)

lemma distinct_input: "distinct (filtered_sources (renewables_input k ef cur goal))"
  by (simp add: filtered_renewables_input)

lemma costs_numbers_input: "costs_numbers (renewables_input k ef cur goal) \<longleftrightarrow> k \<noteq> NaN"
  by (simp add: costs_numbers_def filtered_renewables_input capital_cost_renewables_input)

lemma costs_nonzero_input: "costs_nonzero (renewables_input k ef cur goal) \<longleftrightarrow> k \<noteq> Num 0"
  by (simp add: costs_nonzero_def filtered_renewables_input capital_cost_renewables_input)

lemma distinct_balanced: "distinct (filtered_sources balanced_input)"
  by (simp add: balanced_input_def distinct_input)

lemma costs_numbers_balanced: "costs_numbers balanced_input"
  by (simp add: balanced_input_def costs_numbers_input)

section \<open>Claim C1: the annual budget bounds\<close>




section \<open>Claim C9: the target-capacity map and the filtered sources\<close>






section \<open>Claim C10: a missing renewable source\<close>







section \<open>Claim C2: missing and zero capital costs\<close>

lemma invest_per_cost_Inl_D:
  assumes "s \<in> set (filtered_sources inp)" "y \<in> set years" "invest_per_cost inp s y = Inl e"
    and n: "costs_numbers inp"
  shows "e = ZeroDivisionError"
proof (cases "cost_of inp s = 0")
  case True
  from filtered_sourcesD[OF assms(1)] obtain k where k: "capital_cost inp s = Some k" by blast
  from n assms(1) have "capital_cost inp s \<noteq> Some NaN" by (simp add: costs_numbers_def)
  with k True have "capital_cost inp s = Some (Num 0)"
    by (cases k) (simp_all add: cost_of_def)
  from invest_per_cost_zero[OF assms(1,2) this] assms(3) show ?thesis by simp
next
  case False
  from invest_per_cost_ok[OF assms(1,2) this] assms(3) show ?thesis by simp
qed

lemma production_term_Inl_D:
  assumes "s \<in> set (filtered_sources inp)" "y \<in> set years" "production_term inp s y = Inl e"
    and n: "costs_numbers inp"
  shows "e = ZeroDivisionError"
proof (cases "invest_per_cost inp s y")
  case (Inl e')
  with assms(3) have "e' = e" by (simp add: production_term_def err_bind_Inl)
  with invest_per_cost_Inl_D[OF assms(1,2) _ n] Inl show ?thesis by simp
next
  case (Inr v)
  from filtered_sourcesD[OF assms(1)] obtain f where "capacity_factors s = Some f" by blast
  with Inr assms(3) show ?thesis
    by (simp add: production_term_def err_bind_Inr lookup_Some)
qed

lemma emission_term_Inl_D:
  assumes "s \<in> set (filtered_sources inp)" "y \<in> set years" "emission_term inp s y = Inl e"
    and n: "costs_numbers inp"
  shows "e = ZeroDivisionError"
proof (cases "invest_per_cost inp s y")
  case (Inl e')
  with assms(3) have "e' = e" by (simp add: emission_term_def err_bind_Inl)
  with invest_per_cost_Inl_D[OF assms(1,2) _ n] Inl show ?thesis by simp
next
  case (Inr v)
  from filtered_sourcesD[OF assms(1)] obtain ef where "emission_factors inp s = Some ef" by blast
  with Inr assms(3) show ?thesis
    by (simp add: emission_term_def err_bind_Inr lookup_Some)
qed

lemma collect_product_Inl_D:
  assumes "collect (concat (map (\<lambda>s. map (f s) ys) xs)) = Inl e"
  shows "\<exists>s \<in> set xs. \<exists>y \<in> set ys. f s y = Inl e"
  using collect_Inl_D[OF assms] by fastforce

lemma err_bind_Inl_D: "err_bind r (\<lambda>v. Inr (g v)) = Inl e \<Longrightarrow> r = Inl e"
  by (cases r) (simp_all add: err_bind_def)

lemma renewable_capacity_lhs_Inl_D:
  assumes "renewables_present inp" "renewable_capacity_lhs inp = Inl e" "costs_numbers inp"
  shows "e = ZeroDivisionError"
proof -
  from assms(2) have "collect (concat (map (\<lambda>s. map (invest_per_cost inp s) years) renewable_sources)) = Inl e"
    unfolding renewable_capacity_lhs_def by (rule err_bind_Inl_D)
  from collect_product_Inl_D[OF this] obtain s y where
    "s \<in> set renewable_sources" "y \<in> set years" "invest_per_cost inp s y = Inl e" by blast
  with assms(1,3) invest_per_cost_Inl_D[of s inp y e] show ?thesis
    by (auto simp: renewables_present_def)
qed

lemma renewable_production_lhs_Inl_D:
  assumes "renewables_present inp" "renewable_production_lhs inp = Inl e" "costs_numbers inp"
  shows "e = ZeroDivisionError"
proof -
  from assms(2) have "collect (concat (map (\<lambda>s. map (production_term inp s) years) renewable_sources)) = Inl e"
    unfolding renewable_production_lhs_def by (rule err_bind_Inl_D)
  from collect_product_Inl_D[OF this] obtain s y where
    "s \<in> set renewable_sources" "y \<in> set years" "production_term inp s y = Inl e" by blast
  with assms(1,3) production_term_Inl_D[of s inp y e] show ?thesis
    by (auto simp: renewables_present_def)
qed

lemma emissions_lhs_Inl_D:
  assumes "emissions_lhs inp = Inl e" "costs_numbers inp"
  shows "e = ZeroDivisionError"
proof -
  from assms(1) have "collect (concat (map (\<lambda>s. map (emission_term inp s) years) (filtered_sources inp))) = Inl e"
    unfolding emissions_lhs_def by (rule err_bind_Inl_D)
  from collect_product_Inl_D[OF this] obtain s y where
    "s \<in> set (filtered_sources inp)" "y \<in> set years" "emission_term inp s y = Inl e" by blast
  with emission_term_Inl_D[of s inp y e] assms(2) show ?thesis by simp
qed

text \<open>With distinct keys, numbers in the cost cells and the four renewable sources present,
  only a division can raise.\<close>

lemma build_Failed_division:
  assumes d: "distinct (filtered_sources inp)" and n: "costs_numbers inp"
    and r: "renewables_present inp" and f: "build inp = Failed e cs"
  shows "e = ZeroDivisionError"
proof -
  from r have r': "set renewable_sources \<subseteq> set (filtered_sources inp)"
    by (simp add: renewables_present_def)
  then have t: "\<forall>s \<in> set renewable_sources. target_capacity inp s \<noteq> None"
    by (auto simp: set_filtered_sources)
  from f d show ?thesis
    by (auto simp: build_def target_loop_all[OF n] capacity_target_ok[OF t]
        production_target_ok[OF r'] total_emission_target_ok Let_def
        split: sum.splits
        dest: renewable_capacity_lhs_Inl_D[OF r _ n] renewable_production_lhs_Inl_D[OF r _ n]
          emissions_lhs_Inl_D[OF _ n])
qed

text \<open>The refusal of a NaN comes from line 95 only: no division by a NaN is reached.\<close>

lemma build_GurobiError_D:
  assumes "build inp = Failed GurobiError cs"
  shows "distinct (filtered_sources inp) \<and> \<not> costs_numbers inp"
proof (rule ccontr)
  assume a: "\<not> (distinct (filtered_sources inp) \<and> \<not> costs_numbers inp)"
  show False
  proof (cases "distinct (filtered_sources inp)")
    case False
    from build_duplicate[OF this] assms show False by (simp add: duplicate_keys_def)
  next
    case d: True
    with a have n: "costs_numbers inp" by simp
    show False
    proof (cases "renewables_present inp")
      case True
      from build_Failed_division[OF d n True assms] show False by simp
    next
      case False
      then obtain s where s: "s \<in> set renewable_sources" "s \<notin> set (filtered_sources inp)"
        by (auto simp: renewables_present_def)
      then have "target_capacity inp s = None \<or> s \<notin> set (sources inp)"
        by (auto simp: set_filtered_sources)
      from build_renewable_missing[OF d n s(1) this] assms show False by auto
    qed
  qed
qed








section \<open>Claim C8: the objective\<close>

lemmas eval_simps = eval_var_expr eval_const_expr eval_add_expr eval_scale_expr eval_quicksum

lemma sum_list_concat_map:
  "sum_list (concat (map (\<lambda>s. map (g s) ys) xs)) = (\<Sum>s \<leftarrow> xs. \<Sum>y \<leftarrow> ys. (g s y :: real))"
  by (induction xs) simp_all

lemma eval_objective:
  "eval_expr x (objective inp) =
     (\<Sum>s \<leftarrow> filtered_sources inp. \<Sum>y \<leftarrow> years. x (Investment s y))
     + 1.1 * ((\<Sum>s \<leftarrow> filtered_sources inp. x (Slack_Target s))
              + (\<Sum>y \<leftarrow> years. x (Slack_Min_Budget y))
              + (\<Sum>y \<leftarrow> years. x (Slack_Max_Budget y))
              + x Slack_Renewable_Capacity + x Slack_Renewable_Production + x Slack_Emissions)"
proof -
  have a: "(\<Sum>e \<leftarrow> concat (map (\<lambda>s. map (\<lambda>y. var_expr (Investment s y)) years) (filtered_sources inp)).
              eval_expr x e)
           = (\<Sum>s \<leftarrow> filtered_sources inp. \<Sum>y \<leftarrow> years. x (Investment s y))"
    by (simp add: map_concat o_def sum_list_concat_map eval_var_expr)
  show ?thesis
    by (simp add: objective_def eval_add_expr eval_scale_expr eval_quicksum a penalty_factor_def
        o_def eval_var_expr sum_list_addf)
qed

lemma lin_const_objective: "lin_const (objective inp) = 0"
  by (simp add: objective_def add_expr_def scale_expr_def quicksum_def var_expr_def o_def
      map_concat sum_list_concat_map)


text \<open>
  Claim C8. At any values of the variables the objective is the sum of the investment
  variables over the filtered sources and the years plus 1.1 times the sum of the slack
  variables of all six families; it has no constant term, and it is the objective of the
  model that is handed to the solver.
\<close>

theorem objective_form:
  "(\<forall>x. eval_expr x (objective inp) =
      (\<Sum>s \<leftarrow> filtered_sources inp. \<Sum>y \<leftarrow> years. x (Investment s y))
      + 1.1 * ((\<Sum>s \<leftarrow> filtered_sources inp. x (Slack_Target s))
               + (\<Sum>y \<leftarrow> years. x (Slack_Min_Budget y))
               + (\<Sum>y \<leftarrow> years. x (Slack_Max_Budget y))
               + x Slack_Renewable_Capacity + x Slack_Renewable_Production + x Slack_Emissions))
   \<and> lin_const (objective inp) = 0
   \<and> (\<forall>b. build inp = Built b \<longrightarrow> m_objective (b_model b) = objective inp)"
  by (simp add: eval_objective lin_const_objective build_Built_iff full_model_def)

lemma costs_nonzero_balanced: "costs_nonzero balanced_input"
  by (simp add: balanced_input_def costs_nonzero_input)

lemma renewables_present_balanced: "renewables_present balanced_input"
  by (simp add: balanced_input_def renewables_present_input)

lemma build_balanced: "build balanced_input = Built (full_model balanced_input)"
  by (rule build_ok[OF distinct_balanced costs_numbers_balanced renewables_present_balanced
        costs_nonzero_balanced])


text \<open>The theorem at the balanced table, with every variable at 1.\<close>

theorem objective_form_witness:
  "build balanced_input = Built (full_model balanced_input)
   \<and> m_objective (b_model (full_model balanced_input)) = objective balanced_input
   \<and> eval_expr (\<lambda>v. 1) (m_objective (b_model (full_model balanced_input))) = 28 + 1.1 * 21"
proof -
  note inst = objective_form[of balanced_input]
  from inst have a: "\<forall>x. eval_expr x (objective balanced_input) =
      (\<Sum>s \<leftarrow> filtered_sources balanced_input. \<Sum>y \<leftarrow> years. x (Investment s y))
      + 1.1 * ((\<Sum>s \<leftarrow> filtered_sources balanced_input. x (Slack_Target s))
               + (\<Sum>y \<leftarrow> years. x (Slack_Min_Budget y))
               + (\<Sum>y \<leftarrow> years. x (Slack_Max_Budget y))
               + x Slack_Renewable_Capacity + x Slack_Renewable_Production + x Slack_Emissions)"
    by (elim conjE)
  from inst have b: "\<forall>b. build balanced_input = Built b \<longrightarrow>
      m_objective (b_model b) = objective balanced_input"
    by (elim conjE)
  from b[rule_format, OF build_balanced]
  have c: "m_objective (b_model (full_model balanced_input)) = objective balanced_input" .
  from a[rule_format, of "\<lambda>v. 1"]
  have "eval_expr (\<lambda>v. 1) (objective balanced_input) = 28 + 1.1 * 21"
    by (simp add: balanced_input_def filtered_renewables_input years_eq)
  with c have "eval_expr (\<lambda>v. 1) (m_objective (b_model (full_model balanced_input)))
                 = 28 + 1.1 * 21" by (simp only:)
  with build_balanced c show ?thesis by (intro conjI)
qed

section \<open>Claim C7: the emissions constraint\<close>

lemma eval_quicksum_product:
  "eval_expr x (quicksum (map (\<lambda>(s, y). e s y) (List.product xs ys)))
     = (\<Sum>s \<leftarrow> xs. \<Sum>y \<leftarrow> ys. eval_expr x (e s y))"
proof -
  have "eval_expr x (quicksum (map (\<lambda>(s, y). e s y) (List.product xs ys)))
          = (\<Sum>(s, y) \<leftarrow> List.product xs ys. eval_expr x (e s y))"
    by (simp add: eval_quicksum o_def case_prod_unfold)
  then show ?thesis by (simp add: sum_list_product)
qed

lemma eval_per_cost:
  "eval_expr x (per_cost inp s y) = x (Investment s y) / cost_of inp s"
  by (simp add: per_cost_def eval_scale_expr eval_var_expr)

lemma eval_emissions_lhs:
  "eval_expr x (c_lhs (emissions_constr inp)) = spec_emissions_lhs inp x"
  by (simp add: emissions_constr_def eval_quicksum_product eval_scale_expr eval_per_cost
      spec_emissions_lhs_def mult.commute)

lemma eval_emissions_rhs:
  "eval_expr x (c_rhs (emissions_constr inp)) = spec_emission_target inp + x Slack_Emissions"
  by (simp add: emissions_constr_def eval_add_expr eval_const_expr eval_var_expr)

lemma filter_target_constrs:
  "[c \<leftarrow> target_constrs inp ss. c_name c = Emissions] = []"
  by (simp add: target_constrs_def target_constr_def filter_empty_conv)

lemma filter_budget_constrs:
  "[c \<leftarrow> budget_constrs inp. c_name c = Emissions] = []"
  by (auto simp: filter_empty_conv budget_constrs_mem min_budget_constr_def max_budget_constr_def)

lemma emissions_constr_only:
  "[c \<leftarrow> m_constrs (b_model (full_model inp)). c_name c = Emissions] = [emissions_constr inp]"
  by (simp add: full_model_def filter_target_constrs filter_budget_constrs capacity_constr_def
      production_constr_def emissions_constr_def)

text \<open>
  Claim C7. In the model that is handed to the solver there is one constraint named
  Emissions. It holds at the values \<open>x\<close> exactly when the sum over the filtered sources and
  the years of Investment / capitalCost times emissionFactor is at most emissionTarget plus
  the emissions slack, where emissionTarget is the value the program computes at lines
  143--150: 0.43 times targetProduction times \<open>10\<^sup>6\<close> plus the sum over the filtered sources of
  emissionFactor times (targetCapacity - currentCapacity) times capacityFactor times
  8760 / \<open>10\<^sup>3\<close>, with the targetProduction of the renewable-production constraint.
\<close>

theorem emissions_constraint_form:
  assumes "build inp = Built b"
  shows "\<exists>c. [c' \<leftarrow> m_constrs (b_model b). c_name c' = Emissions] = [c]
           \<and> c_sense c = LE
           \<and> (\<forall>x. eval_expr x (c_lhs c) = spec_emissions_lhs inp x)
           \<and> (\<forall>x. eval_expr x (c_rhs c) = spec_emission_target inp + x Slack_Emissions)
           \<and> (\<forall>x. holds x c \<longleftrightarrow>
                 spec_emissions_lhs inp x \<le> spec_emission_target inp + x Slack_Emissions)
           \<and> b_emission_target b = spec_emission_target inp
           \<and> b_production_target b = spec_target_production inp
           \<and> total_renewable_production_target inp = Inr (spec_target_production inp)
           \<and> total_emission_target inp (spec_target_production inp)
               = Inr (spec_emission_target inp)"
proof -
  from assms have b: "b = full_model inp" and r: "renewables_present inp"
    by (simp_all add: build_Built_iff)
  from r have r': "set renewable_sources \<subseteq> set (filtered_sources inp)"
    by (simp add: renewables_present_def)
  have sense: "c_sense (emissions_constr inp) = LE" by (simp add: emissions_constr_def)
  have "holds x (emissions_constr inp) \<longleftrightarrow>
          spec_emissions_lhs inp x \<le> spec_emission_target inp + x Slack_Emissions" for x
    by (simp add: holds_def sense eval_emissions_lhs eval_emissions_rhs)
  moreover note sense
  moreover have "total_renewable_production_target inp = Inr (spec_target_production inp)"
    by (simp add: production_target_ok[OF r'] spec_target_production_def)
  moreover have "total_emission_target inp (spec_target_production inp)
               = Inr (spec_emission_target inp)"
    by (simp add: total_emission_target_ok spec_emission_target_def)
  moreover have "b_emission_target (full_model inp) = spec_emission_target inp"
    "b_production_target (full_model inp) = spec_target_production inp"
    by (simp_all add: full_model_def)
  ultimately show ?thesis
    unfolding b
    by (intro exI[of _ "emissions_constr inp"])
      (simp add: emissions_constr_only eval_emissions_lhs eval_emissions_rhs)
qed

lemma capacity_factors_renewables:
  "value_of capacity_factors ''Solar'' = 0.2" "value_of capacity_factors ''Wind'' = 0.3"
  "value_of capacity_factors ''Hydropower'' = 0.4" "value_of capacity_factors ''Biomass'' = 0.7"
  by (simp_all add: value_of_def capacity_factors_def dict_of_def)

lemma spec_capacity_target_input:
  "spec_capacity_target (renewables_input k ef cur goal) = goal * 1000 + 3000"
  by (simp add: spec_capacity_target_def renewable_sources_def target_capacity_renewables_input
      value_of_def)

lemma spec_target_production_input:
  "spec_target_production (renewables_input k ef cur goal)
     = (goal * 1000 - cur) * 0.2 * 8760 / 10 ^ 6"
  by (simp add: spec_target_production_def renewable_sources_def target_capacity_renewables_input
      current_capacity_renewables_input value_of_def capacity_factors_def dict_of_def)

lemma spec_emission_target_input:
  "spec_emission_target (renewables_input k ef cur goal)
     = 0.43 * ((goal * 1000 - cur) * 0.2 * 8760 / 10 ^ 6) * 10 ^ 6
       + ef * (goal * 1000 - cur) * 0.2 * 8760 / 10 ^ 3"
  by (simp add: spec_emission_target_def spec_target_production_input filtered_renewables_input
      target_capacity_renewables_input current_capacity_renewables_input
      emission_factors_renewables_input value_of_def capacity_factors_def dict_of_def)

lemma build_input:
  "k \<noteq> 0 \<Longrightarrow> build (renewables_input (Num k) ef cur goal)
                 = Built (full_model (renewables_input (Num k) ef cur goal))"
  by (rule build_ok)
    (simp_all add: distinct_input costs_numbers_input renewables_present_input costs_nonzero_input)

lemma build_growth: "build growth_input = Built (full_model growth_input)"
  by (simp add: growth_input_def build_input)

lemma build_emitting: "build emitting_input = Built (full_model emitting_input)"
  by (simp add: emitting_input_def build_input)

text \<open>The theorem at the table where Solar grows from nothing to 1 GW.\<close>

theorem emissions_constraint_form_witness:
  "build growth_input = Built (full_model growth_input)
   \<and> spec_emission_target growth_input = 753535.2
   \<and> (\<exists>c. [c' \<leftarrow> m_constrs (b_model (full_model growth_input)). c_name c' = Emissions] = [c]
           \<and> c_sense c = LE
           \<and> (\<forall>x. holds x c \<longleftrightarrow>
                 spec_emissions_lhs growth_input x \<le> 753535.2 + x Slack_Emissions))"
proof -
  have t: "spec_emission_target growth_input = 753535.2"
    by (simp add: growth_input_def spec_emission_target_input)
  from emissions_constraint_form[OF build_growth] obtain c where
    o1: "[c' \<leftarrow> m_constrs (b_model (full_model growth_input)). c_name c' = Emissions] = [c]"
    and o2: "c_sense c = LE"
    and o3: "\<forall>x. holds x c \<longleftrightarrow>
        spec_emissions_lhs growth_input x \<le> spec_emission_target growth_input + x Slack_Emissions"
    by blast
  have "\<exists>c. [c' \<leftarrow> m_constrs (b_model (full_model growth_input)). c_name c' = Emissions] = [c]
           \<and> c_sense c = LE
           \<and> (\<forall>x. holds x c \<longleftrightarrow>
                 spec_emissions_lhs growth_input x \<le> 753535.2 + x Slack_Emissions)"
    by (rule exI[of _ c], intro conjI) (rule o1, rule o2, rule o3[unfolded t])
  with build_growth t show ?thesis by (intro conjI)
qed

section \<open>Feasible values and a lower bound of the objective\<close>

lemma sum_list_pick:
  "distinct ys \<Longrightarrow> y \<in> set ys \<Longrightarrow> (\<Sum>y' \<leftarrow> ys. if y' = y then (g y' :: real) else 0) = g y"
proof (induction ys)
  case Nil
  then show ?case by simp
next
  case (Cons a ys)
  show ?case
  proof (cases "a = y")
    case True
    with Cons.prems have "y \<notin> set ys" by simp
    then have "(\<Sum>y' \<leftarrow> ys. if y' = y then g y' else 0) = 0"
      by (induction ys) auto
    with True show ?thesis by simp
  next
    case False
    with Cons show ?thesis by simp
  qed
qed

lemma sum_list_pick_none:
  "y \<notin> set ys \<Longrightarrow> (\<Sum>y' \<leftarrow> ys. if y' = y then (g y' :: real) else 0) = 0"
  by (induction ys) auto

lemma distinct_years: "distinct years"
  by (simp add: years_eq)

lemma eval_investment_sum:
  "eval_expr x (investment_sum inp pat)
     = (\<Sum>s \<leftarrow> filtered_sources inp. \<Sum>y \<leftarrow> years.
          if pat (s, y) then x (Investment s y) else 0)"
proof -
  have "\<And>ks. eval_expr x (quicksum (concat (map (\<lambda>(s, y). if pat (s, y) then [var_expr (Investment s y)] else []) ks)))
          = (\<Sum>(s, y) \<leftarrow> ks. if pat (s, y) then x (Investment s y) else 0)"
  proof -
    fix ks :: "(string \<times> int) list"
    show "eval_expr x (quicksum (concat (map (\<lambda>(s, y). if pat (s, y) then [var_expr (Investment s y)] else []) ks)))
          = (\<Sum>(s, y) \<leftarrow> ks. if pat (s, y) then x (Investment s y) else 0)"
      by (induction ks) (auto simp: eval_quicksum eval_var_expr)
  qed
  then show ?thesis
    by (simp add: investment_sum_def investment_keys_def sum_list_product)
qed

lemma eval_investment_sum_year:
  assumes "y \<in> set years"
  shows "eval_expr x (investment_sum inp (\<lambda>(s, y'). y' = y))
           = (\<Sum>s \<leftarrow> filtered_sources inp. x (Investment s y))"
  by (simp add: eval_investment_sum sum_list_pick[OF distinct_years assms])

lemma eval_investment_sum_source:
  assumes "distinct (filtered_sources inp)" "s \<in> set (filtered_sources inp)"
  shows "eval_expr x (investment_sum inp (\<lambda>(s', y). s' = s))
           = (\<Sum>y \<leftarrow> years. x (Investment s y))"
proof -
  have "eval_expr x (investment_sum inp (\<lambda>(s', y). s' = s))
          = (\<Sum>s' \<leftarrow> filtered_sources inp.
               if s' = s then (\<Sum>y \<leftarrow> years. x (Investment s' y)) else 0)"
    unfolding eval_investment_sum
    by (intro arg_cong[of _ _ sum_list] map_cong refl) (auto simp: sum_list_0)
  also have "\<dots> = (\<Sum>y \<leftarrow> years. x (Investment s y))"
    using assms by (intro sum_list_pick) simp_all
  finally show ?thesis .
qed

lemma sum_list_swap:
  "(\<Sum>a \<leftarrow> xs. \<Sum>b \<leftarrow> ys. (g a b :: real)) = (\<Sum>b \<leftarrow> ys. \<Sum>a \<leftarrow> xs. g a b)"
  by (induction xs) (simp_all add: sum_list_addf)

lemma holds_target:
  assumes "distinct (filtered_sources inp)" "s \<in> set (filtered_sources inp)"
  shows "holds x (target_constr inp s c)
           \<longleftrightarrow> c \<le> (\<Sum>y \<leftarrow> years. x (Investment s y)) + x (Slack_Target s)"
  by (simp add: holds_def target_constr_def eval_add_expr eval_var_expr eval_const_expr
      eval_investment_sum_source[OF assms])

lemma holds_min_budget:
  assumes "y \<in> set years"
  shows "holds x (min_budget_constr inp y)
           \<longleftrightarrow> min_annual_budget
                 \<le> (\<Sum>s \<leftarrow> filtered_sources inp. x (Investment s y)) + x (Slack_Min_Budget y)"
  by (simp add: holds_def min_budget_constr_def eval_add_expr eval_var_expr eval_const_expr
      eval_investment_sum_year[OF assms])

lemma holds_max_budget:
  assumes "y \<in> set years"
  shows "holds x (max_budget_constr inp y)
           \<longleftrightarrow> (\<Sum>s \<leftarrow> filtered_sources inp. x (Investment s y))
                 \<le> max_annual_budget + x (Slack_Max_Budget y)"
  by (simp add: holds_def max_budget_constr_def eval_add_expr eval_var_expr eval_const_expr
      eval_investment_sum_year[OF assms])

lemma holds_capacity:
  "holds x (capacity_constr inp)
     \<longleftrightarrow> spec_capacity_target inp
           \<le> (\<Sum>s \<leftarrow> renewable_sources. \<Sum>y \<leftarrow> years.
                 x (Investment s y) / cost_of inp s)
              + x Slack_Renewable_Capacity"
  by (simp add: holds_def capacity_constr_def eval_add_expr eval_var_expr eval_const_expr
      eval_quicksum_product eval_per_cost)

lemma holds_production:
  "holds x (production_constr inp)
     \<longleftrightarrow> spec_target_production inp * 10 ^ 6
           \<le> (\<Sum>s \<leftarrow> renewable_sources. \<Sum>y \<leftarrow> years.
                 8760 * (value_of capacity_factors s
                          * (x (Investment s y) / cost_of inp s)))
              + x Slack_Renewable_Production"
  by (simp add: holds_def production_constr_def eval_add_expr eval_var_expr eval_const_expr
      eval_quicksum_product eval_per_cost eval_scale_expr)

lemma holds_emissions:
  "holds x (emissions_constr inp)
     \<longleftrightarrow> spec_emissions_lhs inp x \<le> spec_emission_target inp + x Slack_Emissions"
proof -
  have "c_sense (emissions_constr inp) = LE" by (simp add: emissions_constr_def)
  then show ?thesis by (simp add: holds_def eval_emissions_lhs eval_emissions_rhs)
qed

lemma model_vars_nonneg:
  "(\<forall>v \<in> set (model_vars inp). 0 \<le> x v) \<longleftrightarrow>
     (\<forall>s \<in> set (filtered_sources inp). \<forall>y \<in> set years. 0 \<le> x (Investment s y))
     \<and> (\<forall>s \<in> set (filtered_sources inp). 0 \<le> x (Slack_Target s))
     \<and> (\<forall>y \<in> set years. 0 \<le> x (Slack_Min_Budget y))
     \<and> (\<forall>y \<in> set years. 0 \<le> x (Slack_Max_Budget y))
     \<and> 0 \<le> x Slack_Renewable_Capacity \<and> 0 \<le> x Slack_Renewable_Production
     \<and> 0 \<le> x Slack_Emissions"
  by (auto simp: model_vars_def investment_keys_def)

text \<open>The linear program in words: what it means for values to be feasible.\<close>

lemma feasible_iff:
  assumes d: "distinct (filtered_sources inp)"
  shows "feasible (b_model (full_model inp)) x \<longleftrightarrow>
     (\<forall>v \<in> set (model_vars inp). 0 \<le> x v)
     \<and> (\<forall>s \<in> set (filtered_sources inp).
           target_cost inp s \<le> (\<Sum>y \<leftarrow> years. x (Investment s y)) + x (Slack_Target s))
     \<and> (\<forall>y \<in> set years.
           min_annual_budget
             \<le> (\<Sum>s \<leftarrow> filtered_sources inp. x (Investment s y)) + x (Slack_Min_Budget y))
     \<and> (\<forall>y \<in> set years.
           (\<Sum>s \<leftarrow> filtered_sources inp. x (Investment s y))
             \<le> max_annual_budget + x (Slack_Max_Budget y))
     \<and> holds x (capacity_constr inp) \<and> holds x (production_constr inp)
     \<and> holds x (emissions_constr inp)"
proof -
  have t: "(\<forall>c \<in> set (target_constrs inp (filtered_sources inp)). holds x c) \<longleftrightarrow>
        (\<forall>s \<in> set (filtered_sources inp).
           target_cost inp s \<le> (\<Sum>y \<leftarrow> years. x (Investment s y)) + x (Slack_Target s))"
    by (auto simp: target_constrs_def holds_target[OF d])
  have b: "(\<forall>c \<in> set (budget_constrs inp). holds x c) \<longleftrightarrow>
     (\<forall>y \<in> set years.
           min_annual_budget
             \<le> (\<Sum>s \<leftarrow> filtered_sources inp. x (Investment s y)) + x (Slack_Min_Budget y))
     \<and> (\<forall>y \<in> set years.
           (\<Sum>s \<leftarrow> filtered_sources inp. x (Investment s y))
             \<le> max_annual_budget + x (Slack_Max_Budget y))"
  proof -
    have "(\<forall>c \<in> set (budget_constrs inp). holds x c) \<longleftrightarrow>
            (\<forall>y \<in> set years. holds x (min_budget_constr inp y) \<and> holds x (max_budget_constr inp y))"
      by (auto simp: budget_constrs_def)
    also have "\<dots> \<longleftrightarrow> (\<forall>y \<in> set years.
           min_annual_budget
             \<le> (\<Sum>s \<leftarrow> filtered_sources inp. x (Investment s y)) + x (Slack_Min_Budget y))
     \<and> (\<forall>y \<in> set years.
           (\<Sum>s \<leftarrow> filtered_sources inp. x (Investment s y))
             \<le> max_annual_budget + x (Slack_Max_Budget y))"
      by (auto simp: holds_min_budget holds_max_budget)
    finally show ?thesis .
  qed
  have "feasible (b_model (full_model inp)) x \<longleftrightarrow>
     (\<forall>v \<in> set (model_vars inp). 0 \<le> x v)
     \<and> (\<forall>c \<in> set (target_constrs inp (filtered_sources inp)). holds x c)
     \<and> (\<forall>c \<in> set (budget_constrs inp). holds x c)
     \<and> holds x (capacity_constr inp) \<and> holds x (production_constr inp)
     \<and> holds x (emissions_constr inp)"
    by (auto simp: feasible_def full_model_def)
  then show ?thesis by (simp only: t b conj_assoc)
qed

text \<open>Every feasible point spends at least the seven minimum budgets, in money or in slack.\<close>

lemma feasible_parts:
  assumes "feasible (b_model (full_model inp)) x"
  shows "\<forall>v \<in> set (model_vars inp). 0 \<le> x v"
    and "\<forall>y \<in> set years.
           min_annual_budget
             \<le> (\<Sum>s \<leftarrow> filtered_sources inp. x (Investment s y)) + x (Slack_Min_Budget y)"
    and "holds x (emissions_constr inp)"
proof -
  from assms show "\<forall>v \<in> set (model_vars inp). 0 \<le> x v"
    by (simp add: feasible_def full_model_def)
  from assms have "\<forall>c \<in> set (budget_constrs inp). holds x c"
    by (simp add: feasible_def full_model_def)
  then have "\<forall>y \<in> set years. holds x (min_budget_constr inp y)"
    by (auto simp: budget_constrs_def)
  then show "\<forall>y \<in> set years.
           min_annual_budget
             \<le> (\<Sum>s \<leftarrow> filtered_sources inp. x (Investment s y)) + x (Slack_Min_Budget y)"
    by (simp add: holds_min_budget)
  from assms show "holds x (emissions_constr inp)"
    by (simp add: feasible_def full_model_def)
qed

lemma investment_covers_budget:
  assumes "feasible (b_model (full_model inp)) x"
  shows "7 * min_annual_budget - (\<Sum>y \<leftarrow> years. x (Slack_Min_Budget y))
           \<le> (\<Sum>s \<leftarrow> filtered_sources inp. \<Sum>y \<leftarrow> years. x (Investment s y))"
proof -
  note mb = feasible_parts(2)[OF assms]
  have per_year: "min_annual_budget - x (Slack_Min_Budget y)
                    \<le> (\<Sum>s \<leftarrow> filtered_sources inp. x (Investment s y))"
    if y: "y \<in> set years" for y
    using mb y by fastforce
  have "(\<Sum>y \<leftarrow> years. min_annual_budget - x (Slack_Min_Budget y))
          \<le> (\<Sum>y \<leftarrow> years. \<Sum>s \<leftarrow> filtered_sources inp. x (Investment s y))"
    by (rule sum_list_mono) (rule per_year)
  moreover have "(\<Sum>y \<leftarrow> years. min_annual_budget - x (Slack_Min_Budget y))
          = 7 * min_annual_budget - (\<Sum>y \<leftarrow> years. x (Slack_Min_Budget y))"
    by (simp add: years_eq)
  ultimately show ?thesis
    by (simp add: sum_list_swap[of _ "filtered_sources inp" years])
qed

lemma feasible_slack_sums:
  assumes "feasible (b_model (full_model inp)) x"
  shows "0 \<le> (\<Sum>s \<leftarrow> filtered_sources inp. x (Slack_Target s))"
    "0 \<le> (\<Sum>y \<leftarrow> years. x (Slack_Min_Budget y))"
    "0 \<le> (\<Sum>y \<leftarrow> years. x (Slack_Max_Budget y))"
    "0 \<le> x Slack_Renewable_Capacity" "0 \<le> x Slack_Renewable_Production"
    "0 \<le> x Slack_Emissions"
  using feasible_parts(1)[OF assms] by (auto simp: model_vars_nonneg intro!: sum_list_nonneg)

lemma objective_above_budget_part:
  assumes "feasible (b_model (full_model inp)) x"
  shows "(\<Sum>s \<leftarrow> filtered_sources inp. \<Sum>y \<leftarrow> years. x (Investment s y))
         + 1.1 * (\<Sum>y \<leftarrow> years. x (Slack_Min_Budget y)) + 1.1 * x Slack_Emissions
           \<le> eval_expr x (objective inp)"
proof -
  define A where "A = (\<Sum>s \<leftarrow> filtered_sources inp. \<Sum>y \<leftarrow> years. x (Investment s y))"
  define T where "T = (\<Sum>s \<leftarrow> filtered_sources inp. x (Slack_Target s))"
  define M where "M = (\<Sum>y \<leftarrow> years. x (Slack_Min_Budget y))"
  define N where "N = (\<Sum>y \<leftarrow> years. x (Slack_Max_Budget y))"
  from feasible_slack_sums[OF assms]
  have "0 \<le> T" "0 \<le> N" "0 \<le> x Slack_Renewable_Capacity" "0 \<le> x Slack_Renewable_Production"
    by (simp_all add: T_def N_def)
  then have "A + 1.1 * M + 1.1 * x Slack_Emissions
      \<le> A + 1.1 * (T + M + N + x Slack_Renewable_Capacity + x Slack_Renewable_Production
                    + x Slack_Emissions)"
    by argo
  then show ?thesis by (simp only: eval_objective A_def T_def M_def N_def)
qed

lemma objective_lower_bound:
  assumes "feasible (b_model (full_model inp)) x"
  shows "7 * min_annual_budget \<le> eval_expr x (objective inp)"
proof -
  define A where "A = (\<Sum>s \<leftarrow> filtered_sources inp. \<Sum>y \<leftarrow> years. x (Investment s y))"
  define M where "M = (\<Sum>y \<leftarrow> years. x (Slack_Min_Budget y))"
  from investment_covers_budget[OF assms] have "7 * min_annual_budget - M \<le> A"
    by (simp add: A_def M_def)
  moreover from feasible_slack_sums[OF assms] have "0 \<le> M" "0 \<le> x Slack_Emissions"
    by (simp_all add: M_def)
  moreover from objective_above_budget_part[OF assms]
  have "A + 1.1 * M + 1.1 * x Slack_Emissions \<le> eval_expr x (objective inp)"
    by (simp only: A_def M_def)
  ultimately show ?thesis by argo
qed

text \<open>When every unit of investment emits at least \<open>r\<close>, and the emissions slack it costs
  is cheaper than the budget slack it saves.\<close>

lemma objective_lower_bound_emitting:
  assumes f: "feasible (b_model (full_model inp)) x"
    and r: "0 \<le> r" "11 * r \<le> 1"
    and ratio: "\<forall>s \<in> set (filtered_sources inp).
                  r \<le> value_of (emission_factors inp) s / cost_of inp s"
  shows "(1 + 1.1 * r) * (7 * min_annual_budget) - 1.1 * spec_emission_target inp
           \<le> eval_expr x (objective inp)"
proof -
  define A where "A = (\<Sum>s \<leftarrow> filtered_sources inp. \<Sum>y \<leftarrow> years. x (Investment s y))"
  define M where "M = (\<Sum>y \<leftarrow> years. x (Slack_Min_Budget y))"
  from feasible_parts(1,3)[OF f]
  have nn: "\<forall>s \<in> set (filtered_sources inp). \<forall>y \<in> set years. 0 \<le> x (Investment s y)"
    and em: "spec_emissions_lhs inp x \<le> spec_emission_target inp + x Slack_Emissions"
    by (simp_all add: model_vars_nonneg holds_emissions)
  have "(\<Sum>s \<leftarrow> filtered_sources inp. \<Sum>y \<leftarrow> years. r * x (Investment s y))
          \<le> spec_emissions_lhs inp x"
    unfolding spec_emissions_lhs_def
  proof (intro sum_list_mono)
    fix s y assume s: "s \<in> set (filtered_sources inp)" and y: "y \<in> set years"
    from nn s y have "0 \<le> x (Investment s y)" by blast
    moreover from ratio s
    have "r \<le> value_of (emission_factors inp) s / cost_of inp s" by blast
    ultimately have "x (Investment s y) * r
       \<le> x (Investment s y) * (value_of (emission_factors inp) s / cost_of inp s)"
      by (rule mult_left_mono[rotated])
    then show "r * x (Investment s y)
       \<le> x (Investment s y) / cost_of inp s * value_of (emission_factors inp) s"
      by (simp add: mult.commute)
  qed
  moreover have "(\<Sum>s \<leftarrow> filtered_sources inp. \<Sum>y \<leftarrow> years. r * x (Investment s y)) = r * A"
    by (simp add: A_def sum_list_const_mult)
  ultimately have e: "r * A - spec_emission_target inp \<le> x Slack_Emissions"
    using em by simp
  from investment_covers_budget[OF f] have c: "7 * min_annual_budget - M \<le> A"
    by (simp add: A_def M_def)
  from feasible_slack_sums[OF f] have m: "0 \<le> M" by (simp add: M_def)
  define P where "P = (1 + 1.1 * r) * (A - (7 * min_annual_budget - M))"
  define Q where "Q = (0.1 - 1.1 * r) * M"
  define R where "R = r * A"
  define S where "S = (1 + 1.1 * r) * (7 * min_annual_budget)"
  from r c have p1: "0 \<le> P"
    unfolding P_def by (intro mult_nonneg_nonneg) simp_all
  from r m have p2: "0 \<le> Q"
    unfolding Q_def by (intro mult_nonneg_nonneg) simp_all
  have o: "A + 1.1 * M + 1.1 * x Slack_Emissions \<le> eval_expr x (objective inp)"
    using objective_above_budget_part[OF f] by (simp only: A_def M_def)
  have split: "A + 1.1 * M + 1.1 * (R - spec_emission_target inp)
      = S - 1.1 * spec_emission_target inp + P + Q"
    by (simp add: P_def Q_def R_def S_def field_simps)
  from e have e': "R - spec_emission_target inp \<le> x Slack_Emissions" by (simp add: R_def)
  from o e' split p1 p2 have "S - 1.1 * spec_emission_target inp \<le> eval_expr x (objective inp)"
    by argo
  then show ?thesis by (simp only: S_def)
qed

section \<open>Optimal values for the concrete inputs\<close>

lemma plan_simps:
  "plan w e (Investment ''Solar'' y) = (if y = 2024 then min_annual_budget - w else min_annual_budget)"
  "plan w e (Investment ''Wind'' y) = (if y = 2024 then w else 0)"
  "plan w e (Investment ''Hydropower'' y) = 0"
  "plan w e (Investment ''Biomass'' y) = 0"
  "plan w e (Slack_Target s) = 0"
  "plan w e (Slack_Min_Budget y) = 0"
  "plan w e (Slack_Max_Budget y) = 0"
  "plan w e Slack_Renewable_Capacity = 0"
  "plan w e Slack_Renewable_Production = 0"
  "plan w e Slack_Emissions = e"
  by (simp_all add: plan_def)

lemma plan_nonneg:
  assumes "0 \<le> w" "w \<le> min_annual_budget" "0 \<le> e"
  shows "0 \<le> plan w e v"
  using assms by (cases v) (auto simp: plan_def)

lemma min_annual_budget_pos: "0 < min_annual_budget"
  by (simp add: min_annual_budget_value)

lemma min_le_max_budget: "min_annual_budget \<le> max_annual_budget"
  by (simp add: min_annual_budget_value max_annual_budget_value)

lemma target_cost_input:
  "target_cost (renewables_input (Num k) ef cur goal) ''Solar'' = (goal * 1000 - cur) * k"
  "target_cost (renewables_input c ef cur goal) ''Wind'' = 0"
  "target_cost (renewables_input c ef cur goal) ''Hydropower'' = 0"
  "target_cost (renewables_input c ef cur goal) ''Biomass'' = 0"
  by (simp_all add: target_cost_def total_target_cost_def target_capacity_renewables_input
      current_capacity_renewables_input capital_cost_renewables_input lookup_def err_bind_def
      fmap_def)

lemma cost_of_input:
  "cost_of (renewables_input (Num k) ef cur goal) ''Solar'' = k"
  "cost_of (renewables_input c ef cur goal) ''Wind'' = 10 ^ 7"
  "cost_of (renewables_input c ef cur goal) ''Hydropower'' = 10 ^ 7"
  "cost_of (renewables_input c ef cur goal) ''Biomass'' = 10 ^ 7"
  by (simp_all add: cost_of_def capital_cost_renewables_input)

lemma value_of_ef_input:
  "value_of (emission_factors (renewables_input k ef cur goal)) ''Solar'' = ef"
  "value_of (emission_factors (renewables_input k ef cur goal)) ''Wind'' = ef"
  "value_of (emission_factors (renewables_input k ef cur goal)) ''Hydropower'' = ef"
  "value_of (emission_factors (renewables_input k ef cur goal)) ''Biomass'' = ef"
  by (simp_all add: value_of_def emission_factors_renewables_input)

lemma spec_emissions_lhs_plan:
  "spec_emissions_lhs (renewables_input (Num (10 ^ 7)) ef cur goal) (plan w e)
     = 7 * min_annual_budget / 10 ^ 7 * ef"
  by (simp add: spec_emissions_lhs_def filtered_renewables_input years_eq plan_simps
      cost_of_input value_of_ef_input field_simps)

lemma eval_objective_plan:
  "eval_expr (plan w e) (objective (renewables_input k ef cur goal))
     = 7 * min_annual_budget + 1.1 * e"
  by (simp add: eval_objective filtered_renewables_input years_eq plan_simps)

text \<open>When the plan is feasible on a table of the family.\<close>

lemma feasible_plan:
  assumes w: "0 \<le> w" "w \<le> min_annual_budget" and e: "0 \<le> e"
    and target: "(goal * 1000 - cur) * 10 ^ 7 \<le> 7 * min_annual_budget - w"
    and capacity: "goal * 1000 + 3000 \<le> 7 * min_annual_budget / 10 ^ 7"
    and production: "(goal * 1000 - cur) * 0.2 * 8760
                       \<le> 8760 * (0.2 * ((7 * min_annual_budget - w) / 10 ^ 7)) 
                          + 8760 * (0.3 * (w / 10 ^ 7))"
    and emissions: "7 * min_annual_budget / 10 ^ 7 * ef
                      \<le> spec_emission_target (renewables_input (Num (10 ^ 7)) ef cur goal) + e"
  shows "feasible (b_model (full_model (renewables_input (Num (10 ^ 7)) ef cur goal))) (plan w e)"
proof -
  let ?inp = "renewables_input (Num (10 ^ 7)) ef cur goal"
  have nn: "\<forall>v \<in> set (model_vars ?inp). 0 \<le> plan w e v"
    using plan_nonneg[OF w e] by blast
  have t: "\<forall>s \<in> set (filtered_sources ?inp).
           target_cost ?inp s \<le> (\<Sum>y \<leftarrow> years. plan w e (Investment s y)) + plan w e (Slack_Target s)"
    using target w min_annual_budget_pos
    by (simp add: filtered_renewables_input target_cost_input years_eq plan_simps)
  have mn: "\<forall>y \<in> set years. min_annual_budget
             \<le> (\<Sum>s \<leftarrow> filtered_sources ?inp. plan w e (Investment s y))
               + plan w e (Slack_Min_Budget y)"
    by (simp add: filtered_renewables_input years_eq plan_simps)
  have mx: "\<forall>y \<in> set years.
           (\<Sum>s \<leftarrow> filtered_sources ?inp. plan w e (Investment s y))
             \<le> max_annual_budget + plan w e (Slack_Max_Budget y)"
    using min_le_max_budget by (simp add: filtered_renewables_input years_eq plan_simps)
  have c: "holds (plan w e) (capacity_constr ?inp)"
    using capacity
    by (simp add: holds_capacity spec_capacity_target_input renewable_sources_def years_eq
        plan_simps cost_of_input field_simps)
  have p: "holds (plan w e) (production_constr ?inp)"
    using production
    by (simp add: holds_production spec_target_production_input renewable_sources_def years_eq
        plan_simps cost_of_input capacity_factors_renewables field_simps)
  have em: "holds (plan w e) (emissions_constr ?inp)"
    unfolding holds_emissions spec_emissions_lhs_plan plan_simps by (rule emissions)
  from nn t mn mx c p em show ?thesis by (simp only: feasible_iff[OF distinct_input] simp_thms)
qed

lemma seven_budgets: "7 * min_annual_budget = 352 * 10 ^ 11"
  by (simp add: min_annual_budget_value)

lemma optimal_plan:
  assumes "feasible (b_model (full_model (renewables_input k ef cur goal))) (plan w 0)"
  shows "optimal (b_model (full_model (renewables_input k ef cur goal))) (plan w 0)"
proof -
  have "m_objective (b_model (full_model (renewables_input k ef cur goal)))
          = objective (renewables_input k ef cur goal)"
    by (simp add: full_model_def)
  with assms objective_lower_bound[of "renewables_input k ef cur goal"] show ?thesis
    by (simp add: optimal_def eval_objective_plan)
qed

lemma feasible_balanced:
  assumes "0 \<le> w" "w \<le> 1"
  shows "feasible (b_model (full_model balanced_input)) (plan w 0)"
  unfolding balanced_input_def
proof (rule feasible_plan)
  show "0 \<le> w" by fact
  show "w \<le> min_annual_budget" using assms by (simp add: min_annual_budget_value)
  show "(0::real) \<le> 0" by simp
  show "(1 * 1000 - 1000) * 10 ^ 7 \<le> 7 * min_annual_budget - w"
    using assms by (simp add: seven_budgets)
  show "(1::real) * 1000 + 3000 \<le> 7 * min_annual_budget / 10 ^ 7"
    by (simp add: seven_budgets)
  show "(1 * 1000 - 1000) * 0.2 * 8760
          \<le> 8760 * (0.2 * ((7 * min_annual_budget - w) / 10 ^ 7)) + 8760 * (0.3 * (w / 10 ^ 7))"
    using assms by (simp add: seven_budgets)
  show "7 * min_annual_budget / 10 ^ 7 * 0
          \<le> spec_emission_target (renewables_input (Num (10 ^ 7)) 0 1000 1) + 0"
    by (simp add: spec_emission_target_input)
qed

lemma optimal_balanced:
  assumes "0 \<le> w" "w \<le> 1"
  shows "optimal (b_model (full_model balanced_input)) (plan w 0)"
  using feasible_balanced[OF assms] optimal_plan[of "Num (10 ^ 7)" 0 1000 1 w]
  by (simp add: balanced_input_def)

lemma feasible_growth: "feasible (b_model (full_model growth_input)) (plan 0 0)"
  unfolding growth_input_def
proof (rule feasible_plan)
  show "(0::real) \<le> 0" "(0::real) \<le> 0" by simp_all
  show "0 \<le> min_annual_budget" by (simp add: min_annual_budget_value)
  show "(1 * 1000 - 0) * 10 ^ 7 \<le> 7 * min_annual_budget - 0"
    by (simp add: seven_budgets)
  show "(1::real) * 1000 + 3000 \<le> 7 * min_annual_budget / 10 ^ 7"
    by (simp add: seven_budgets)
  show "(1 * 1000 - 0) * 0.2 * 8760
          \<le> 8760 * (0.2 * ((7 * min_annual_budget - 0) / 10 ^ 7)) + 8760 * (0.3 * (0 / 10 ^ 7))"
    by (simp add: seven_budgets)
  show "7 * min_annual_budget / 10 ^ 7 * 0.1
          \<le> spec_emission_target (renewables_input (Num (10 ^ 7)) 0.1 0 1) + 0"
    by (simp add: spec_emission_target_input seven_budgets)
qed

lemma optimal_growth: "optimal (b_model (full_model growth_input)) (plan 0 0)"
  using feasible_growth optimal_plan[of "Num (10 ^ 7)" "1/10" 0 1 0]
  by (simp add: growth_input_def)

lemma feasible_emitting: "feasible (b_model (full_model emitting_input)) (plan 0 352000)"
  unfolding emitting_input_def
proof (rule feasible_plan)
  show "(0::real) \<le> 0" "(0::real) \<le> 352000" by simp_all
  show "0 \<le> min_annual_budget" by (simp add: min_annual_budget_value)
  show "(1 * 1000 - 1000) * 10 ^ 7 \<le> 7 * min_annual_budget - 0"
    by (simp add: seven_budgets)
  show "(1::real) * 1000 + 3000 \<le> 7 * min_annual_budget / 10 ^ 7"
    by (simp add: seven_budgets)
  show "(1 * 1000 - 1000) * 0.2 * 8760
          \<le> 8760 * (0.2 * ((7 * min_annual_budget - 0) / 10 ^ 7)) + 8760 * (0.3 * (0 / 10 ^ 7))"
    by (simp add: seven_budgets)
  show "7 * min_annual_budget / 10 ^ 7 * 0.1
          \<le> spec_emission_target (renewables_input (Num (10 ^ 7)) 0.1 1000 1) + 352000"
    by (simp add: spec_emission_target_input seven_budgets)
qed

lemma optimal_emitting: "optimal (b_model (full_model emitting_input)) (plan 0 352000)"
proof -
  let ?inp = "renewables_input (Num (10 ^ 7)) 0.1 1000 1"
  have ratio: "\<forall>s \<in> set (filtered_sources ?inp).
      1 / 10 ^ 8 \<le> value_of (emission_factors ?inp) s / cost_of ?inp s"
    by (simp add: filtered_renewables_input cost_of_input value_of_ef_input)
  have bound: "eval_expr (plan 0 352000) (objective ?inp) \<le> eval_expr x (objective ?inp)"
    if "feasible (b_model (full_model ?inp)) x" for x
  proof -
    from objective_lower_bound_emitting[OF that _ _ ratio]
    have "(1 + 1.1 * (1 / 10 ^ 8)) * (7 * min_annual_budget) - 1.1 * spec_emission_target ?inp
            \<le> eval_expr x (objective ?inp)" by simp
    then show ?thesis
      by (simp add: eval_objective_plan spec_emission_target_input seven_budgets)
  qed
  have "m_objective (b_model (full_model ?inp)) = objective ?inp"
    by (simp add: full_model_def)
  with feasible_emitting bound show ?thesis
    by (simp add: optimal_def emitting_input_def)
qed

section \<open>Claim C3: every source at its target\<close>

lemma sum_list_strict_mono:
  fixes f g :: "'a \<Rightarrow> real"
  assumes "\<And>a. a \<in> set xs \<Longrightarrow> f a \<le> g a" "a0 \<in> set xs" "f a0 < g a0"
  shows "sum_list (map f xs) < sum_list (map g xs)"
  using assms
proof (induction xs)
  case Nil
  then show ?case by simp
next
  case (Cons a xs)
  have le: "sum_list (map f xs) \<le> sum_list (map g xs)"
    by (rule sum_list_mono) (simp add: Cons.prems(1))
  show ?case
  proof (cases "a = a0")
    case True
    with Cons.prems(3) le show ?thesis by simp
  next
    case False
    with Cons.prems have "a0 \<in> set xs" by simp
    with Cons.IH Cons.prems have "sum_list (map f xs) < sum_list (map g xs)" by simp
    moreover have "f a \<le> g a" by (simp add: Cons.prems(1))
    ultimately show ?thesis by simp
  qed
qed

lemma target_cost_filtered:
  assumes "s \<in> set (filtered_sources inp)"
  shows "target_cost inp s
           = (value_of (target_capacity inp) s - value_of (current_capacity inp) s)
               * cost_of inp s"
proof -
  from filtered_sourcesD[OF assms] obtain t c k where
    "target_capacity inp s = Some t" "current_capacity inp s = Some c" "capital_cost inp s = Some k"
    by blast
  then show ?thesis
    by (cases k)
      (simp_all add: target_cost_def total_target_cost_def lookup_Some err_bind_Inr value_of_def
        cost_of_def fmap_def)
qed

text \<open>Taking the target slack of one source away keeps a point feasible when its target
  costs nothing, and makes it cheaper.\<close>

lemma drop_target_slack:
  assumes d: "distinct (filtered_sources inp)"
    and f: "feasible (b_model (full_model inp)) x"
    and s: "s \<in> set (filtered_sources inp)" and z: "target_cost inp s = 0"
    and pos: "0 < x (Slack_Target s)"
  shows "feasible (b_model (full_model inp)) (x(Slack_Target s := 0))"
    and "eval_expr (x(Slack_Target s := 0)) (objective inp) < eval_expr x (objective inp)"
proof -
  let ?x = "x(Slack_Target s := 0)"
  note fi = feasible_iff[OF d]
  from f have nn: "\<forall>v \<in> set (model_vars inp). 0 \<le> x v" by (simp add: fi)
  then have nn': "\<forall>v \<in> set (model_vars inp). 0 \<le> ?x v" by simp
  from nn have inv: "\<forall>s \<in> set (filtered_sources inp). \<forall>y \<in> set years. 0 \<le> x (Investment s y)"
    by (simp add: model_vars_nonneg)
  have t: "target_cost inp s' \<le> (\<Sum>y \<leftarrow> years. ?x (Investment s' y)) + ?x (Slack_Target s')"
    if s': "s' \<in> set (filtered_sources inp)" for s'
  proof (cases "s' = s")
    case True
    have "0 \<le> (\<Sum>y \<leftarrow> years. x (Investment s y))"
      using inv s by (intro sum_list_nonneg) auto
    with True z show ?thesis by simp
  next
    case False
    with f s' show ?thesis by (simp add: fi)
  qed
  from f t nn' show "feasible (b_model (full_model inp)) ?x"
    by (simp add: fi holds_capacity holds_production holds_emissions
        spec_emissions_lhs_def)
  have "(\<Sum>s' \<leftarrow> filtered_sources inp. ?x (Slack_Target s'))
          < (\<Sum>s' \<leftarrow> filtered_sources inp. x (Slack_Target s'))"
    using s pos by (intro sum_list_strict_mono[where ?a0.0 = s]) auto
  then show "eval_expr ?x (objective inp) < eval_expr x (objective inp)"
    by (simp add: eval_objective)
qed

lemma optimal_no_target_slack:
  assumes d: "distinct (filtered_sources inp)"
    and o: "optimal (b_model (full_model inp)) x"
    and s: "s \<in> set (filtered_sources inp)" and z: "target_cost inp s = 0"
  shows "x (Slack_Target s) = 0"
proof (rule ccontr)
  assume n: "x (Slack_Target s) \<noteq> 0"
  from o have f: "feasible (b_model (full_model inp)) x" by (simp add: optimal_def)
  with s have "0 \<le> x (Slack_Target s)" by (simp add: feasible_iff[OF d] model_vars_nonneg)
  with n have pos: "0 < x (Slack_Target s)" by simp
  from drop_target_slack[OF d f s z pos] o show False
    by (simp add: optimal_def full_model_def) (meson not_le)
qed

lemma target_constrs_mem:
  "c \<in> set (target_constrs inp ss) \<longleftrightarrow> (\<exists>s \<in> set ss. c = target_constr inp s (target_cost inp s))"
  by (auto simp: target_constrs_def)

lemma full_model_target_named:
  assumes "c \<in> set (m_constrs (b_model (full_model inp)))" "c_name c = Target s"
  shows "s \<in> set (filtered_sources inp) \<and> c = target_constr inp s (target_cost inp s)"
proof -
  from assms have "c \<in> set (target_constrs inp (filtered_sources inp))"
    by (auto simp: full_model_def budget_constrs_mem min_budget_constr_def max_budget_constr_def
        capacity_constr_def production_constr_def emissions_constr_def)
  with assms(2) show ?thesis
    by (auto simp: target_constrs_mem target_constr_def)
qed

text \<open>
  Claim C3, as amended. When the target capacity of every filtered source equals its
  current capacity, every target constraint of the model has right-hand side 0 and every
  minimum-cost feasible solution has zero target slack for every source. Nothing is said of
  the total investment, nor of the other slack families: the minimum-budget constraints
  make investment cheaper than slack.
\<close>

theorem targets_met_no_target_slack:
  assumes "build inp = Built b"
    and "\<forall>s \<in> set (filtered_sources inp). target_capacity inp s = current_capacity inp s"
  shows "(\<forall>c \<in> set (m_constrs (b_model b)). \<forall>s. c_name c = Target s \<longrightarrow> c_rhs c = const_expr 0)
       \<and> (\<forall>x. optimal (b_model b) x \<longrightarrow>
             (\<forall>s \<in> set (filtered_sources inp). x (Slack_Target s) = 0))"
proof -
  from assms(1) have b: "b = full_model inp" and d: "distinct (filtered_sources inp)"
    by (simp_all add: build_Built_iff)
  have z: "target_cost inp s = 0" if "s \<in> set (filtered_sources inp)" for s
  proof -
    from assms(2) that have "target_capacity inp s = current_capacity inp s" by blast
    then have "value_of (target_capacity inp) s = value_of (current_capacity inp) s"
      by (simp add: value_of_def)
    then show ?thesis by (simp add: target_cost_filtered[OF that])
  qed
  have "c_rhs c = const_expr 0"
    if "c \<in> set (m_constrs (b_model (full_model inp)))" "c_name c = Target s" for c s
    using full_model_target_named[OF that] z by (auto simp: target_constr_def)
  moreover have "x (Slack_Target s) = 0"
    if "optimal (b_model (full_model inp)) x" "s \<in> set (filtered_sources inp)" for x s
    using optimal_no_target_slack[OF d that] z that(2) by simp
  ultimately show ?thesis unfolding b by blast
qed

text \<open>The theorem at the balanced table and its optimal plan.\<close>

theorem targets_met_no_target_slack_witness:
  "build balanced_input = Built (full_model balanced_input)
   \<and> target_capacity balanced_input ''Solar'' = current_capacity balanced_input ''Solar''
   \<and> target_capacity balanced_input ''Wind'' = current_capacity balanced_input ''Wind''
   \<and> target_capacity balanced_input ''Hydropower'' = current_capacity balanced_input ''Hydropower''
   \<and> target_capacity balanced_input ''Biomass'' = current_capacity balanced_input ''Biomass''
   \<and> optimal (b_model (full_model balanced_input)) (plan 0 0)
   \<and> plan 0 0 (Slack_Target ''Solar'') = 0
   \<and> c_rhs (target_constr balanced_input ''Solar'' (target_cost balanced_input ''Solar''))
       = const_expr 0"
proof -
  have eqs: "target_capacity balanced_input ''Solar'' = current_capacity balanced_input ''Solar''"
    "target_capacity balanced_input ''Wind'' = current_capacity balanced_input ''Wind''"
    "target_capacity balanced_input ''Hydropower'' = current_capacity balanced_input ''Hydropower''"
    "target_capacity balanced_input ''Biomass'' = current_capacity balanced_input ''Biomass''"
    by (simp_all add: balanced_input_def target_capacity_renewables_input
        current_capacity_renewables_input)
  have fs: "filtered_sources balanced_input = [''Solar'', ''Wind'', ''Hydropower'', ''Biomass'']"
    by (simp add: balanced_input_def filtered_renewables_input)
  from eqs have h: "\<forall>s \<in> set (filtered_sources balanced_input).
      target_capacity balanced_input s = current_capacity balanced_input s"
    by (simp add: fs)
  have o: "optimal (b_model (full_model balanced_input)) (plan 0 0)"
    by (rule optimal_balanced) simp_all
  note inst = targets_met_no_target_slack[OF build_balanced h]
  from inst have a: "\<forall>c \<in> set (m_constrs (b_model (full_model balanced_input))).
      \<forall>s. c_name c = Target s \<longrightarrow> c_rhs c = const_expr 0" by (elim conjE)
  from inst have b: "\<forall>x. optimal (b_model (full_model balanced_input)) x \<longrightarrow>
             (\<forall>s \<in> set (filtered_sources balanced_input). x (Slack_Target s) = 0)"
    by (elim conjE)
  have s: "''Solar'' \<in> set (filtered_sources balanced_input)" by (simp add: fs)
  from b[rule_format, OF o s] have p: "plan 0 0 (Slack_Target ''Solar'') = 0" .
  let ?c = "target_constr balanced_input ''Solar'' (target_cost balanced_input ''Solar'')"
  have "?c \<in> set (target_constrs balanced_input (filtered_sources balanced_input))"
    using s unfolding target_constrs_mem by (rule bexI[rotated]) (rule refl)
  then have m: "?c \<in> set (m_constrs (b_model (full_model balanced_input)))"
    by (simp add: full_model_def)
  have n: "c_name ?c = Target ''Solar''" by (simp add: target_constr_def)
  from a[rule_format, OF m n] have r: "c_rhs ?c = const_expr 0" .
  from build_balanced eqs o p r show ?thesis by (intro conjI)
qed

text \<open>
  Claim C3 as stated fails: on the balanced table the plan that invests the minimum budget
  in Solar every year is a minimum-cost feasible solution, with a total investment of
  \<open>352 \<times> 10\<^sup>1\<^sup>1\<close>, and no minimum-cost feasible solution has a total investment of zero.
\<close>

theorem zero_investment_counterexample:
  "build balanced_input = Built (full_model balanced_input)
   \<and> filtered_sources balanced_input = [''Solar'', ''Wind'', ''Hydropower'', ''Biomass'']
   \<and> target_capacity balanced_input ''Solar'' = current_capacity balanced_input ''Solar''
   \<and> target_capacity balanced_input ''Wind'' = current_capacity balanced_input ''Wind''
   \<and> target_capacity balanced_input ''Hydropower'' = current_capacity balanced_input ''Hydropower''
   \<and> target_capacity balanced_input ''Biomass'' = current_capacity balanced_input ''Biomass''
   \<and> optimal (b_model (full_model balanced_input)) (plan 0 0)
   \<and> (\<Sum>s \<leftarrow> filtered_sources balanced_input. \<Sum>y \<leftarrow> years. plan 0 0 (Investment s y))
       = 352 * 10 ^ 11
   \<and> \<not> (\<exists>x. optimal (b_model (full_model balanced_input)) x
            \<and> (\<Sum>s \<leftarrow> filtered_sources balanced_input. \<Sum>y \<leftarrow> years. x (Investment s y)) = 0)"
proof -
  have eqs: "target_capacity balanced_input ''Solar'' = current_capacity balanced_input ''Solar''"
    "target_capacity balanced_input ''Wind'' = current_capacity balanced_input ''Wind''"
    "target_capacity balanced_input ''Hydropower'' = current_capacity balanced_input ''Hydropower''"
    "target_capacity balanced_input ''Biomass'' = current_capacity balanced_input ''Biomass''"
    by (simp_all add: balanced_input_def target_capacity_renewables_input
        current_capacity_renewables_input)
  have fs: "filtered_sources balanced_input = [''Solar'', ''Wind'', ''Hydropower'', ''Biomass'']"
    by (simp add: balanced_input_def filtered_renewables_input)
  have o: "optimal (b_model (full_model balanced_input)) (plan 0 0)"
    by (rule optimal_balanced) simp_all
  have total: "(\<Sum>s \<leftarrow> filtered_sources balanced_input. \<Sum>y \<leftarrow> years. plan 0 0 (Investment s y))
       = 352 * 10 ^ 11"
    by (simp add: fs years_eq plan_simps min_annual_budget_value)
  have obj: "m_objective (b_model (full_model balanced_input)) = objective balanced_input"
    by (simp add: full_model_def)
  have none: "\<not> (\<exists>x. optimal (b_model (full_model balanced_input)) x
            \<and> (\<Sum>s \<leftarrow> filtered_sources balanced_input. \<Sum>y \<leftarrow> years. x (Investment s y)) = 0)"
  proof
    assume "\<exists>x. optimal (b_model (full_model balanced_input)) x
            \<and> (\<Sum>s \<leftarrow> filtered_sources balanced_input. \<Sum>y \<leftarrow> years. x (Investment s y)) = 0"
    then obtain x where x: "optimal (b_model (full_model balanced_input)) x"
      and zero: "(\<Sum>s \<leftarrow> filtered_sources balanced_input. \<Sum>y \<leftarrow> years. x (Investment s y)) = 0"
      by blast
    from x have f: "feasible (b_model (full_model balanced_input)) x" by (simp add: optimal_def)
    define M where "M = (\<Sum>y \<leftarrow> years. x (Slack_Min_Budget y))"
    from o have "feasible (b_model (full_model balanced_input)) (plan 0 0)"
      by (simp add: optimal_def)
    with x have "eval_expr x (objective balanced_input)
                   \<le> eval_expr (plan 0 0) (objective balanced_input)"
      by (simp add: optimal_def obj)
    then have up: "eval_expr x (objective balanced_input) \<le> 7 * min_annual_budget"
      by (simp add: balanced_input_def eval_objective_plan)
    from investment_covers_budget[OF f] zero have m: "7 * min_annual_budget \<le> M"
      by (simp add: M_def)
    from objective_above_budget_part[OF f] zero
    have "1.1 * M + 1.1 * x Slack_Emissions \<le> eval_expr x (objective balanced_input)"
      by (simp add: M_def)
    moreover from feasible_slack_sums[OF f] have "0 \<le> x Slack_Emissions" by simp
    ultimately have "1.1 * M \<le> 7 * min_annual_budget" using up by argo
    with m min_annual_budget_pos show False by argo
  qed
  from build_balanced fs eqs o total none show ?thesis by (intro conjI)
qed

section \<open>The report after a successful construction\<close>

lemma foldl_fadd_Num: "foldl fadd (Num a) (map Num vs) = Num (a + sum_list vs)"
  by (induction vs arbitrary: a) (simp_all add: fadd_def fmap_def add.assoc)

lemma fsum_Num: "fsum (map Num vs) = Num (sum_list vs)"
  by (simp add: fsum_def foldl_fadd_Num)

lemma fsum_Num_product:
  "fsum (map (\<lambda>(s, y). Num (g s y)) (List.product xs ys)) = Num (\<Sum>s \<leftarrow> xs. \<Sum>y \<leftarrow> ys. g s y)"
proof -
  have "map (\<lambda>(s, y). Num (g s y)) (List.product xs ys)
          = map Num (map (\<lambda>(s, y). g s y) (List.product xs ys))"
    by (simp add: o_def case_prod_unfold)
  then have "fsum (map (\<lambda>(s, y). Num (g s y)) (List.product xs ys))
          = Num (\<Sum>(s, y) \<leftarrow> List.product xs ys. g s y)"
    by (simp only: fsum_Num)
  then show ?thesis by (simp only: sum_list_product)
qed

lemma value_per_cost_ok:
  assumes "s \<in> set (filtered_sources inp)" "y \<in> set years" "cost_of inp s \<noteq> 0"
  shows "value_per_cost inp x s y = Inr (Num (x (Investment s y) / cost_of inp s))"
proof -
  from cost_of_nonzeroD[OF assms(3)] obtain k where k: "capital_cost inp s = Some (Num k)" "k \<noteq> 0"
    by blast
  with assms(1,2) show ?thesis
    by (simp add: value_per_cost_def investment_def investment_keys_iff err_bind_Inr
        lookup_Some fdiv_def cost_of_def)
qed

lemma renewable_capacity_achieved_ok:
  assumes "costs_numbers inp" "renewables_present inp" "costs_nonzero inp"
  shows "renewable_capacity_achieved inp x =
     Inr (Num (\<Sum>s \<leftarrow> renewable_sources. \<Sum>y \<leftarrow> years.
            x (Investment s y) / cost_of inp s))"
proof -
  from assms have r: "set renewable_sources \<subseteq> set (filtered_sources inp)"
    and z: "\<forall>s \<in> set (filtered_sources inp). cost_of inp s \<noteq> 0"
    by (simp_all add: renewables_present_def costs_nonzero_value[symmetric])
  have "collect (concat (map (\<lambda>s. map (value_per_cost inp x s) years) renewable_sources))
          = Inr (map (\<lambda>(s, y). Num (x (Investment s y) / cost_of inp s))
                     (List.product renewable_sources years))"
    using r z by (intro collect_product_Inr) (auto simp: value_per_cost_ok)
  then show ?thesis
    by (simp only: renewable_capacity_achieved_def err_bind_Inr fsum_Num_product)
qed

lemma renewable_production_achieved_ok:
  assumes "costs_numbers inp" "renewables_present inp" "costs_nonzero inp"
  shows "renewable_production_achieved inp x =
     Inr (Num (\<Sum>s \<leftarrow> renewable_sources. \<Sum>y \<leftarrow> years.
            x (Investment s y) / cost_of inp s
              * value_of capacity_factors s * 8760 / 10 ^ 6))"
proof -
  from assms have r: "set renewable_sources \<subseteq> set (filtered_sources inp)"
    and z: "\<forall>s \<in> set (filtered_sources inp). cost_of inp s \<noteq> 0"
    by (simp_all add: renewables_present_def costs_nonzero_value[symmetric])
  have tm: "err_bind (value_per_cost inp x s y) (\<lambda>q.
                 err_bind (lookup capacity_factors s)
                   (\<lambda>f. Inr (fmap (\<lambda>v. v * f * 8760 / 10 ^ 6) q)))
       = Inr (Num (x (Investment s y) / cost_of inp s
              * value_of capacity_factors s * 8760 / 10 ^ 6))"
    if "s \<in> set renewable_sources" "y \<in> set years" for s y
  proof -
    from that r have s: "s \<in> set (filtered_sources inp)" by blast
    from filtered_sourcesD[OF s] obtain f where f: "capacity_factors s = Some f" by blast
    from s z that(2) show ?thesis
      by (simp add: value_per_cost_ok err_bind_Inr lookup_Some[of capacity_factors s f, OF f]
          value_of_Some[of capacity_factors s f, OF f] fmap_def)
  qed
  have "collect (concat (map (\<lambda>s. map (\<lambda>y. err_bind (value_per_cost inp x s y) (\<lambda>q.
                 err_bind (lookup capacity_factors s)
                   (\<lambda>f. Inr (fmap (\<lambda>v. v * f * 8760 / 10 ^ 6) q)))) years)
            renewable_sources))
          = Inr (map (\<lambda>(s, y). Num (x (Investment s y) / cost_of inp s
              * value_of capacity_factors s * 8760 / 10 ^ 6))
                     (List.product renewable_sources years))"
    by (intro collect_product_Inr) (rule tm)
  then show ?thesis
    by (simp only: renewable_production_achieved_def err_bind_Inr fsum_Num_product)
qed

lemma emissions_produced_ok:
  assumes "costs_numbers inp" "costs_nonzero inp"
  shows "emissions_produced inp x = Inr (Num (8760 * spec_emissions_lhs inp x))"
proof -
  from assms have z: "\<forall>s \<in> set (filtered_sources inp). cost_of inp s \<noteq> 0"
    by (simp add: costs_nonzero_value[symmetric])
  have tm: "err_bind (value_per_cost inp x s y) (\<lambda>q.
                 err_bind (lookup (emission_factors inp) s)
                   (\<lambda>ef. Inr (fmap (\<lambda>v. v * ef * 8760) q)))
       = Inr (Num (x (Investment s y) / cost_of inp s
              * value_of (emission_factors inp) s * 8760))"
    if s: "s \<in> set (filtered_sources inp)" and y: "y \<in> set years" for s y
  proof -
    from filtered_sourcesD[OF s] obtain ef where ef: "emission_factors inp s = Some ef" by blast
    from s z y show ?thesis
      by (simp add: value_per_cost_ok err_bind_Inr lookup_Some[of "emission_factors inp" s ef, OF ef]
          value_of_Some[of "emission_factors inp" s ef, OF ef] fmap_def)
  qed
  have "collect (concat (map (\<lambda>s. map (\<lambda>y. err_bind (value_per_cost inp x s y) (\<lambda>q.
                 err_bind (lookup (emission_factors inp) s)
                   (\<lambda>ef. Inr (fmap (\<lambda>v. v * ef * 8760) q)))) years)
            (filtered_sources inp)))
          = Inr (map (\<lambda>(s, y). Num (x (Investment s y) / cost_of inp s
              * value_of (emission_factors inp) s * 8760))
                     (List.product (filtered_sources inp) years))"
    by (intro collect_product_Inr) (rule tm)
  then have "emissions_produced inp x
     = Inr (Num (\<Sum>s \<leftarrow> filtered_sources inp. \<Sum>y \<leftarrow> years.
              x (Investment s y) / cost_of inp s
                * value_of (emission_factors inp) s * 8760))"
    by (simp only: emissions_produced_def err_bind_Inr fsum_Num_product)
  also have "(\<Sum>s \<leftarrow> filtered_sources inp. \<Sum>y \<leftarrow> years.
              x (Investment s y) / cost_of inp s
                * value_of (emission_factors inp) s * 8760)
        = 8760 * spec_emissions_lhs inp x"
    by (simp add: spec_emissions_lhs_def sum_list_const_mult[symmetric] mult.commute)
  finally show ?thesis .
qed

lemma report_ok:
  assumes "costs_numbers inp" "renewables_present inp" "costs_nonzero inp"
  shows "report inp b x = Inr (printed inp b x)"
  by (simp add: report_def printed_def Let_def err_bind_Inr
      renewable_capacity_achieved_ok[OF assms] renewable_production_achieved_ok[OF assms]
      emissions_produced_ok[OF assms(1,3)])

lemma result_analysis_ok:
  assumes "build inp = Built b"
  shows "result_analysis inp b OPTIMAL x = Inr (printed inp b x)"
  using assms by (simp add: result_analysis_def report_ok build_Built_iff)

lemma printed_Target_Shortfall:
  "Target_Shortfall s v \<in> set (printed inp b x) \<longleftrightarrow>
     s \<in> set (filtered_sources inp) \<and> 0.5 < x (Slack_Target s)
     \<and> v = format_inr (x (Slack_Target s) / 10 ^ 7)"
  by (auto simp: printed_def source_lines_def year_lines_def emissions_lines_def Let_def
      exceeds_def fmap_def)

lemma printed_Min_Budget_Shortfall:
  "Min_Budget_Shortfall v \<in> set (printed inp b x) \<longleftrightarrow>
     (\<exists>y \<in> set years. 0.5 < x (Slack_Min_Budget y)
        \<and> v = format_inr (x (Slack_Min_Budget y) / 10 ^ 7))"
  by (auto simp: printed_def source_lines_def year_lines_def emissions_lines_def Let_def
      exceeds_def fmap_def)

lemma printed_Max_Budget_Exceeded:
  "Max_Budget_Exceeded v \<in> set (printed inp b x) \<longleftrightarrow>
     (\<exists>y \<in> set years. 0.5 < x (Slack_Max_Budget y)
        \<and> v = format_inr (x (Slack_Max_Budget y) / 10 ^ 7))"
  by (auto simp: printed_def source_lines_def year_lines_def emissions_lines_def Let_def
      exceeds_def fmap_def)

lemma printed_Capacity_Shortfall:
  "Capacity_Shortfall v \<in> set (printed inp b x) \<longleftrightarrow>
     0.5 < x Slack_Renewable_Capacity \<and> v = x Slack_Renewable_Capacity"
  by (auto simp: printed_def source_lines_def year_lines_def emissions_lines_def Let_def
      exceeds_def fmap_def)

lemma printed_Production_Shortfall:
  "Production_Shortfall v \<in> set (printed inp b x) \<longleftrightarrow>
     0.5 < x Slack_Renewable_Production \<and> v = x Slack_Renewable_Production / 10 ^ 6"
  by (auto simp: printed_def source_lines_def year_lines_def emissions_lines_def Let_def
      exceeds_def fmap_def)

lemma printed_Total_Emissions:
  "Total_Emissions p t \<in> set (printed inp b x) \<longleftrightarrow>
     p = Num (8760 * spec_emissions_lhs inp x) \<and> t = b_emission_target b"
  by (auto simp: printed_def source_lines_def year_lines_def emissions_lines_def Let_def
      exceeds_def fmap_def)

lemma printed_Emissions_Exceed:
  "Emissions_Exceed d \<in> set (printed inp b x) \<longleftrightarrow>
     b_emission_target b < 8760 * spec_emissions_lhs inp x
     \<and> d = Num (8760 * spec_emissions_lhs inp x - b_emission_target b)"
  by (auto simp: printed_def source_lines_def year_lines_def emissions_lines_def Let_def
      exceeds_def fmap_def)

lemma printed_Source_Investment:
  "Source_Investment s v \<in> set (printed inp b x) \<longleftrightarrow>
     s \<in> set (filtered_sources inp) \<and> 0 < (\<Sum>y \<leftarrow> years. x (Investment s y))
     \<and> v = format_inr ((\<Sum>y \<leftarrow> years. x (Investment s y)) / 10 ^ 7)"
  by (auto simp: printed_def source_lines_def year_lines_def emissions_lines_def Let_def
      exceeds_def fmap_def)

lemma printed_Year_Investment:
  "Year_Investment y v \<in> set (printed inp b x) \<longleftrightarrow>
     (\<exists>s \<in> set (filtered_sources inp).
        0 < (\<Sum>y \<leftarrow> years. x (Investment s y)) \<and> y \<in> set years
        \<and> 0.5 < x (Investment s y) \<and> v = format_inr (x (Investment s y) / 10 ^ 7))"
  by (auto simp: printed_def source_lines_def year_lines_def emissions_lines_def Let_def
      exceeds_def fmap_def)

section \<open>Claims C4 and C5: warnings and investment lines\<close>

text \<open>
  Claim C4, as amended. On optimal status, after a successful construction, the report is
  printed without error. For five of the six slack families (per-source target, per-year
  min-budget, per-year max-budget, renewable capacity, renewable production) it holds a
  warning of that family with the magnitude of the slack exactly when the slack exceeds
  0.5. For the emissions family the value of the slack is not read: the warning that
  emissions exceed the target is printed exactly when the emissions the analysis
  recomputes exceed the emission target, with their difference as magnitude.
\<close>

theorem slack_warnings:
  assumes "build inp = Built b"
  shows "\<exists>ls ep.
     result_analysis inp b OPTIMAL x = Inr ls \<and> emissions_produced inp x = Inr (Num ep)
     \<and> (\<forall>s v. Target_Shortfall s v \<in> set ls \<longleftrightarrow>
           s \<in> set (filtered_sources inp) \<and> 0.5 < x (Slack_Target s)
           \<and> v = format_inr (x (Slack_Target s) / 10 ^ 7))
     \<and> (\<forall>v. Min_Budget_Shortfall v \<in> set ls \<longleftrightarrow>
           (\<exists>y \<in> set years. 0.5 < x (Slack_Min_Budget y)
              \<and> v = format_inr (x (Slack_Min_Budget y) / 10 ^ 7)))
     \<and> (\<forall>v. Max_Budget_Exceeded v \<in> set ls \<longleftrightarrow>
           (\<exists>y \<in> set years. 0.5 < x (Slack_Max_Budget y)
              \<and> v = format_inr (x (Slack_Max_Budget y) / 10 ^ 7)))
     \<and> (\<forall>v. Capacity_Shortfall v \<in> set ls \<longleftrightarrow>
           0.5 < x Slack_Renewable_Capacity \<and> v = x Slack_Renewable_Capacity)
     \<and> (\<forall>v. Production_Shortfall v \<in> set ls \<longleftrightarrow>
           0.5 < x Slack_Renewable_Production \<and> v = x Slack_Renewable_Production / 10 ^ 6)
     \<and> (\<forall>d. Emissions_Exceed d \<in> set ls \<longleftrightarrow>
           b_emission_target b < ep \<and> d = Num (ep - b_emission_target b))"
proof -
  from assms have n: "costs_numbers inp" and c: "costs_nonzero inp"
    by (simp_all add: build_Built_iff)
  show ?thesis
    by (intro exI[of _ "printed inp b x"] exI[of _ "8760 * spec_emissions_lhs inp x"])
      (simp add: result_analysis_ok[OF assms] emissions_produced_ok[OF n c]
        printed_Target_Shortfall printed_Min_Budget_Shortfall printed_Max_Budget_Exceeded
        printed_Capacity_Shortfall printed_Production_Shortfall printed_Emissions_Exceed)
qed

text \<open>The theorem at the balanced table, with a renewable-capacity slack of 7.\<close>

theorem slack_warnings_witness:
  "build balanced_input = Built (full_model balanced_input)
   \<and> (\<exists>ls. result_analysis balanced_input (full_model balanced_input) OPTIMAL
              ((plan 0 0)(Slack_Renewable_Capacity := 7)) = Inr ls
          \<and> Capacity_Shortfall 7 \<in> set ls)"
proof -
  let ?x = "(plan 0 0)(Slack_Renewable_Capacity := 7)"
  from slack_warnings[OF build_balanced, of ?x] obtain ls where
    r: "result_analysis balanced_input (full_model balanced_input) OPTIMAL ?x = Inr ls"
    and c: "\<forall>v. Capacity_Shortfall v \<in> set ls \<longleftrightarrow>
           0.5 < ?x Slack_Renewable_Capacity \<and> v = ?x Slack_Renewable_Capacity"
    by blast
  from c have "Capacity_Shortfall 7 \<in> set ls" by simp
  with r build_balanced show ?thesis by blast
qed

lemma emissions_lhs_emitting:
  "8760 * spec_emissions_lhs emitting_input (plan 0 352000) = 3083520000"
  unfolding emitting_input_def spec_emissions_lhs_plan by (simp add: seven_budgets)

lemma emission_target_emitting: "b_emission_target (full_model emitting_input) = 0"
  by (simp add: full_model_def emitting_input_def spec_emission_target_input)

text \<open>
  Claim C4 as stated fails for the emissions family: at a minimum-cost solution with an
  emissions slack of 352000 the report has no warning of that magnitude; the warning it
  prints carries 3083520000.
\<close>

theorem emissions_slack_counterexample:
  "build emitting_input = Built (full_model emitting_input)
   \<and> optimal (b_model (full_model emitting_input)) (plan 0 352000)
   \<and> plan 0 352000 Slack_Emissions = 352000
   \<and> (\<exists>ls. result_analysis emitting_input (full_model emitting_input) OPTIMAL (plan 0 352000)
               = Inr ls
          \<and> Emissions_Exceed (Num 352000) \<notin> set ls
          \<and> Emissions_Exceed (Num 3083520000) \<in> set ls)"
proof -
  have "Emissions_Exceed (Num 352000)
          \<notin> set (printed emitting_input (full_model emitting_input) (plan 0 352000))"
    by (simp add: printed_Emissions_Exceed emissions_lhs_emitting emission_target_emitting)
  moreover have "Emissions_Exceed (Num 3083520000)
          \<in> set (printed emitting_input (full_model emitting_input) (plan 0 352000))"
    by (simp add: printed_Emissions_Exceed emissions_lhs_emitting emission_target_emitting)
  ultimately have "\<exists>ls. result_analysis emitting_input (full_model emitting_input) OPTIMAL
               (plan 0 352000) = Inr ls
          \<and> Emissions_Exceed (Num 352000) \<notin> set ls
          \<and> Emissions_Exceed (Num 3083520000) \<in> set ls"
    by (intro exI[of _ "printed emitting_input (full_model emitting_input) (plan 0 352000)"])
      (simp add: result_analysis_ok[OF build_emitting])
  moreover have "plan 0 352000 Slack_Emissions = 352000" by (simp add: plan_simps)
  ultimately show ?thesis using build_emitting optimal_emitting by (intro conjI)
qed

text \<open>
  Claim C5, as amended. In the report of an optimal run the line of a source's total is
  printed exactly when the total is positive (line 196), also when it is at or below 0.5;
  the line of a (source, year) entry is printed exactly when the source's total is positive
  and the entry exceeds 0.5 (line 199), which for non-negative values is exactly when the
  entry exceeds 0.5.
\<close>

theorem investment_lines:
  assumes "build inp = Built b"
  shows "\<exists>ls.
     result_analysis inp b OPTIMAL x = Inr ls
     \<and> (\<forall>s v. Source_Investment s v \<in> set ls \<longleftrightarrow>
           s \<in> set (filtered_sources inp) \<and> 0 < (\<Sum>y \<leftarrow> years. x (Investment s y))
           \<and> v = format_inr ((\<Sum>y \<leftarrow> years. x (Investment s y)) / 10 ^ 7))
     \<and> (\<forall>y v. Year_Investment y v \<in> set ls \<longleftrightarrow>
           (\<exists>s \<in> set (filtered_sources inp).
              0 < (\<Sum>y \<leftarrow> years. x (Investment s y)) \<and> y \<in> set years
              \<and> 0.5 < x (Investment s y) \<and> v = format_inr (x (Investment s y) / 10 ^ 7)))
     \<and> ((\<forall>s \<in> set (filtered_sources inp). \<forall>y \<in> set years. 0 \<le> x (Investment s y)) \<longrightarrow>
          (\<forall>y v. Year_Investment y v \<in> set ls \<longleftrightarrow>
             (\<exists>s \<in> set (filtered_sources inp). y \<in> set years
                \<and> 0.5 < x (Investment s y) \<and> v = format_inr (x (Investment s y) / 10 ^ 7))))"
proof -
  have pos: "0 < (\<Sum>y' \<leftarrow> years. x (Investment s y'))"
    if nn: "\<forall>s \<in> set (filtered_sources inp). \<forall>y \<in> set years. 0 \<le> x (Investment s y)"
      and s: "s \<in> set (filtered_sources inp)" and y: "y \<in> set years"
      and big: "0.5 < x (Investment s y)" for s y
  proof -
    have "(\<Sum>y' \<leftarrow> years. if y' = y then x (Investment s y') else 0)
            \<le> (\<Sum>y' \<leftarrow> years. x (Investment s y'))"
      using nn s by (intro sum_list_mono) auto
    with big show ?thesis by (simp add: sum_list_pick[OF distinct_years y])
  qed
  have "(\<forall>y v. Year_Investment y v \<in> set (printed inp b x) \<longleftrightarrow>
             (\<exists>s \<in> set (filtered_sources inp). y \<in> set years
                \<and> 0.5 < x (Investment s y) \<and> v = format_inr (x (Investment s y) / 10 ^ 7)))"
    if nn: "\<forall>s \<in> set (filtered_sources inp). \<forall>y \<in> set years. 0 \<le> x (Investment s y)"
    unfolding printed_Year_Investment using pos[OF nn] by blast
  then show ?thesis
    by (intro exI[of _ "printed inp b x"])
      (simp add: result_analysis_ok[OF assms] printed_Source_Investment printed_Year_Investment)
qed

text \<open>The theorem at the balanced table and its optimal plan.\<close>

theorem investment_lines_witness:
  "build balanced_input = Built (full_model balanced_input)
   \<and> (\<exists>ls. result_analysis balanced_input (full_model balanced_input) OPTIMAL (plan 0 0) = Inr ls
          \<and> Source_Investment ''Solar'' (format_inr (352 * 10 ^ 11 / 10 ^ 7)) \<in> set ls
          \<and> Source_Investment ''Wind'' (format_inr 0) \<notin> set ls)"
proof -
  have fs: "filtered_sources balanced_input = [''Solar'', ''Wind'', ''Hydropower'', ''Biomass'']"
    by (simp add: balanced_input_def filtered_renewables_input)
  from investment_lines[OF build_balanced, of "plan 0 0"] obtain ls where
    r: "result_analysis balanced_input (full_model balanced_input) OPTIMAL (plan 0 0) = Inr ls"
    and c: "\<forall>s v. Source_Investment s v \<in> set ls \<longleftrightarrow>
           s \<in> set (filtered_sources balanced_input)
           \<and> 0 < (\<Sum>y \<leftarrow> years. plan 0 0 (Investment s y))
           \<and> v = format_inr ((\<Sum>y \<leftarrow> years. plan 0 0 (Investment s y)) / 10 ^ 7)"
    by blast
  have solar: "(\<Sum>y \<leftarrow> years. plan 0 0 (Investment ''Solar'' y)) = 352 * 10 ^ 11"
    by (simp add: years_eq plan_simps min_annual_budget_value)
  have wind: "(\<Sum>y \<leftarrow> years. plan 0 0 (Investment ''Wind'' y)) = 0"
    by (simp add: years_eq plan_simps)
  from c[rule_format, of "''Solar''" "format_inr (352 * 10 ^ 11 / 10 ^ 7)"]
  have a: "Source_Investment ''Solar'' (format_inr (352 * 10 ^ 11 / 10 ^ 7)) \<in> set ls"
    by (simp add: solar fs)
  from c[rule_format, of "''Wind''" "format_inr 0"]
  have b: "Source_Investment ''Wind'' (format_inr 0) \<notin> set ls"
    by (simp add: wind)
  from r a b build_balanced show ?thesis by blast
qed

text \<open>
  Claim C5 as stated fails for the per-source totals: at a minimum-cost solution in which
  Wind receives 0.3 in total, the total of Wind is printed.
\<close>

theorem source_total_counterexample:
  "build balanced_input = Built (full_model balanced_input)
   \<and> optimal (b_model (full_model balanced_input)) (plan 0.3 0)
   \<and> (\<Sum>y \<leftarrow> years. plan 0.3 0 (Investment ''Wind'' y)) = 0.3
   \<and> (\<exists>ls. result_analysis balanced_input (full_model balanced_input) OPTIMAL (plan 0.3 0)
               = Inr ls
          \<and> Source_Investment ''Wind'' (Crore (0.3 / 10 ^ 7)) \<in> set ls)"
proof -
  have fs: "filtered_sources balanced_input = [''Solar'', ''Wind'', ''Hydropower'', ''Biomass'']"
    by (simp add: balanced_input_def filtered_renewables_input)
  have wind: "(\<Sum>y \<leftarrow> years. plan 0.3 0 (Investment ''Wind'' y)) = 0.3"
    by (simp add: years_eq plan_simps)
  have o: "optimal (b_model (full_model balanced_input)) (plan 0.3 0)"
    by (rule optimal_balanced) simp_all
  have "Source_Investment ''Wind'' (Crore (0.3 / 10 ^ 7))
          \<in> set (printed balanced_input (full_model balanced_input) (plan 0.3 0))"
    by (simp add: printed_Source_Investment wind fs format_inr_def)
  then have "\<exists>ls. result_analysis balanced_input (full_model balanced_input) OPTIMAL (plan 0.3 0)
               = Inr ls
          \<and> Source_Investment ''Wind'' (Crore (0.3 / 10 ^ 7)) \<in> set ls"
    by (intro exI[of _ "printed balanced_input (full_model balanced_input) (plan 0.3 0)"])
      (simp add: result_analysis_ok[OF build_balanced])
  with build_balanced o wind show ?thesis by (intro conjI)
qed

section \<open>Claim C6: the scale of the reported emissions\<close>

lemma full_model_emissions_named:
  assumes "c \<in> set (m_constrs (b_model (full_model inp)))" "c_name c = Emissions"
  shows "c = emissions_constr inp"
proof -
  from assms have "c \<in> set [c' \<leftarrow> m_constrs (b_model (full_model inp)). c_name c' = Emissions]"
    by simp
  then show ?thesis by (simp only: emissions_constr_only) simp
qed

lemma emissions_constr_in_model:
  "emissions_constr inp \<in> set (m_constrs (b_model (full_model inp)))"
  by (simp add: full_model_def)

text \<open>
  Claim C6. After a successful construction, at any values of the variables the emissions
  the analysis recomputes are 8760 times the left-hand side of the Emissions constraint at
  the same values; the report prints that product as its Total Emissions, beside the emission
  target, and decides the warning that emissions exceed the target by comparing that product
  with the target. So the report can warn although the constraint holds with zero slack: it
  does at a minimum-cost solution of a concrete table.
\<close>

theorem emissions_report_scale:
  "(\<forall>b c. build inp = Built b \<longrightarrow> c \<in> set (m_constrs (b_model b)) \<longrightarrow> c_name c = Emissions \<longrightarrow>
      emissions_produced inp x = Inr (Num (8760 * eval_expr x (c_lhs c)))
      \<and> (\<exists>ls. result_analysis inp b OPTIMAL x = Inr ls
            \<and> (\<forall>p t. Total_Emissions p t \<in> set ls \<longleftrightarrow>
                  p = Num (8760 * eval_expr x (c_lhs c)) \<and> t = b_emission_target b)
            \<and> (\<forall>d. Emissions_Exceed d \<in> set ls \<longleftrightarrow>
                  b_emission_target b < 8760 * eval_expr x (c_lhs c)
                  \<and> d = Num (8760 * eval_expr x (c_lhs c) - b_emission_target b))))
   \<and> (\<exists>inp' b' x' c' ls d.
         build inp' = Built b' \<and> optimal (b_model b') x'
         \<and> c' \<in> set (m_constrs (b_model b')) \<and> c_name c' = Emissions
         \<and> holds x' c' \<and> x' Slack_Emissions = 0
         \<and> result_analysis inp' b' OPTIMAL x' = Inr ls
         \<and> Total_Emissions (Num (8760 * eval_expr x' (c_lhs c'))) (b_emission_target b') \<in> set ls
         \<and> Emissions_Exceed d \<in> set ls)"
proof -
  have first: "emissions_produced inp x = Inr (Num (8760 * eval_expr x (c_lhs c)))
      \<and> (\<exists>ls. result_analysis inp b OPTIMAL x = Inr ls
            \<and> (\<forall>p t. Total_Emissions p t \<in> set ls \<longleftrightarrow>
                  p = Num (8760 * eval_expr x (c_lhs c)) \<and> t = b_emission_target b)
            \<and> (\<forall>d. Emissions_Exceed d \<in> set ls \<longleftrightarrow>
                  b_emission_target b < 8760 * eval_expr x (c_lhs c)
                  \<and> d = Num (8760 * eval_expr x (c_lhs c) - b_emission_target b)))"
    if b: "build inp = Built b" and c: "c \<in> set (m_constrs (b_model b))"
      and n: "c_name c = Emissions" for b c
  proof -
    from b have fm: "b = full_model inp" and cn: "costs_numbers inp" and cz: "costs_nonzero inp"
      by (simp_all add: build_Built_iff)
    from c n have ce: "c = emissions_constr inp"
      unfolding fm by (rule full_model_emissions_named)
    have l: "eval_expr x (c_lhs c) = spec_emissions_lhs inp x"
      unfolding ce by (rule eval_emissions_lhs)
    show ?thesis
      unfolding l
      by (intro conjI exI[of _ "printed inp b x"])
        (simp_all add: emissions_produced_ok[OF cn cz] result_analysis_ok[OF b]
          printed_Emissions_Exceed printed_Total_Emissions)
  qed
  let ?inp = growth_input and ?b = "full_model growth_input" and ?x = "plan 0 0"
  have lhs: "spec_emissions_lhs ?inp ?x = 352000"
    unfolding growth_input_def spec_emissions_lhs_plan by (simp add: seven_budgets)
  have tgt: "b_emission_target ?b = 753535.2"
    by (simp add: full_model_def growth_input_def spec_emission_target_input)
  have sl: "?x Slack_Emissions = 0" by (simp add: plan_simps)
  from feasible_parts(3)[OF feasible_growth] have h: "holds ?x (emissions_constr ?inp)" .
  have n: "c_name (emissions_constr ?inp) = Emissions" by (simp add: emissions_constr_def)
  have w: "Emissions_Exceed (Num (8760 * 352000 - 753535.2)) \<in> set (printed ?inp ?b ?x)"
    unfolding printed_Emissions_Exceed lhs tgt by simp
  have tot: "Total_Emissions (Num (8760 * eval_expr ?x (c_lhs (emissions_constr ?inp))))
               (b_emission_target ?b) \<in> set (printed ?inp ?b ?x)"
    unfolding printed_Total_Emissions eval_emissions_lhs by simp
  have second: "\<exists>inp' b' x' c' ls d.
         build inp' = Built b' \<and> optimal (b_model b') x'
         \<and> c' \<in> set (m_constrs (b_model b')) \<and> c_name c' = Emissions
         \<and> holds x' c' \<and> x' Slack_Emissions = 0
         \<and> result_analysis inp' b' OPTIMAL x' = Inr ls
         \<and> Total_Emissions (Num (8760 * eval_expr x' (c_lhs c'))) (b_emission_target b') \<in> set ls
         \<and> Emissions_Exceed d \<in> set ls"
    using build_growth optimal_growth emissions_constr_in_model[of ?inp] n h sl
      result_analysis_ok[OF build_growth, of ?x] tot w
    by blast
  from first second show ?thesis by blast
qed

text \<open>The theorem at the table where Solar grows to 1 GW and its optimal plan.\<close>

theorem emissions_report_scale_witness:
  "build growth_input = Built (full_model growth_input)
   \<and> emissions_constr growth_input \<in> set (m_constrs (b_model (full_model growth_input)))
   \<and> c_name (emissions_constr growth_input) = Emissions
   \<and> eval_expr (plan 0 0) (c_lhs (emissions_constr growth_input)) = 352000
   \<and> emissions_produced growth_input (plan 0 0) = Inr (Num (8760 * 352000))
   \<and> holds (plan 0 0) (emissions_constr growth_input)
   \<and> (\<exists>ls. result_analysis growth_input (full_model growth_input) OPTIMAL (plan 0 0) = Inr ls
          \<and> Total_Emissions (Num (8760 * 352000)) 753535.2 \<in> set ls
          \<and> Emissions_Exceed (Num (8760 * 352000 - 753535.2)) \<in> set ls)"
proof -
  have n: "c_name (emissions_constr growth_input) = Emissions"
    by (simp add: emissions_constr_def)
  have l: "eval_expr (plan 0 0) (c_lhs (emissions_constr growth_input)) = 352000"
    unfolding eval_emissions_lhs growth_input_def spec_emissions_lhs_plan
    by (simp add: seven_budgets)
  have tgt: "b_emission_target (full_model growth_input) = 753535.2"
    by (simp add: full_model_def growth_input_def spec_emission_target_input)
  note m = emissions_constr_in_model[of growth_input]
  from feasible_parts(3)[OF feasible_growth]
  have h: "holds (plan 0 0) (emissions_constr growth_input)" .
  from emissions_report_scale[of growth_input "plan 0 0"]
  have "\<forall>b c. build growth_input = Built b \<longrightarrow> c \<in> set (m_constrs (b_model b)) \<longrightarrow>
      c_name c = Emissions \<longrightarrow>
      emissions_produced growth_input (plan 0 0)
        = Inr (Num (8760 * eval_expr (plan 0 0) (c_lhs c)))
      \<and> (\<exists>ls. result_analysis growth_input b OPTIMAL (plan 0 0) = Inr ls
            \<and> (\<forall>p t. Total_Emissions p t \<in> set ls \<longleftrightarrow>
                  p = Num (8760 * eval_expr (plan 0 0) (c_lhs c)) \<and> t = b_emission_target b)
            \<and> (\<forall>d. Emissions_Exceed d \<in> set ls \<longleftrightarrow>
                  b_emission_target b < 8760 * eval_expr (plan 0 0) (c_lhs c)
                  \<and> d = Num (8760 * eval_expr (plan 0 0) (c_lhs c) - b_emission_target b)))"
    by (rule conjunct1)
  note inst = this[rule_format, OF build_growth m n, unfolded l tgt]
  from inst have p: "emissions_produced growth_input (plan 0 0) = Inr (Num (8760 * 352000))"
    by (rule conjunct1)
  from inst obtain ls where
    r: "result_analysis growth_input (full_model growth_input) OPTIMAL (plan 0 0) = Inr ls"
    and t: "\<forall>p t. Total_Emissions p t \<in> set ls \<longleftrightarrow> p = Num (8760 * 352000) \<and> t = 753535.2"
    and e: "\<forall>d. Emissions_Exceed d \<in> set ls \<longleftrightarrow>
              753535.2 < (8760 * 352000 :: real) \<and> d = Num (8760 * 352000 - 753535.2)"
    by blast
  from t have t': "Total_Emissions (Num (8760 * 352000)) 753535.2 \<in> set ls" by blast
  have "(753535.2 :: real) < 8760 * 352000" by simp
  with e have e': "Emissions_Exceed (Num (8760 * 352000 - 753535.2)) \<in> set ls" by blast
  from r t' e' have "\<exists>ls. result_analysis growth_input (full_model growth_input) OPTIMAL (plan 0 0)
             = Inr ls
          \<and> Total_Emissions (Num (8760 * 352000)) 753535.2 \<in> set ls
          \<and> Emissions_Exceed (Num (8760 * 352000 - 753535.2)) \<in> set ls" by blast
  with build_growth m n l p h show ?thesis by (intro conjI)
qed

end
